theory Spec2Isabelle
  imports Main
begin

section \<open>The chess engine of \<^verbatim>\<open>src/js/chess-engine.js\<close>\<close>

text \<open>
  The class \<^verbatim>\<open>ChessEngine\<close> is embedded function by function. Its mutable fields
  become a record that every method takes and returns; the methods keep their names.
  Row and column arguments are JavaScript numbers and are modelled as \<open>int\<close>
  (integers only: the callers pass board indices and parsed squares).
\<close>

subsection \<open>Pieces and the board\<close>

datatype color = White | Black

datatype ptype = Pawn | Rook | Knight | Bishop | Queen | King

text \<open>
  A piece object \<^verbatim>\<open>{ symbol, type, color }\<close>. The symbol is one Unicode chess glyph;
  it is kept as its code point (U+2654 = 9812 is the white king, U+265F = 9823 the
  black pawn).
\<close>

record piece =
  symbol :: int
  ptype :: ptype
  color :: color

type_synonym board = "piece option list list"

text \<open>
  \<^verbatim>\<open>board[r][c]\<close> for a row \<open>r\<close> that exists: the piece, or \<open>None\<close> for \<^verbatim>\<open>null\<close> and for
  a column outside the row (\<^verbatim>\<open>undefined\<close>, which is falsy like \<^verbatim>\<open>null\<close>). Reading a row
  that does not exist gives \<^verbatim>\<open>undefined\<close>, and indexing that throws a TypeError;
  \<open>rowDefined\<close> says whether the row exists. Inside the engine every read but the first
  one of \<^verbatim>\<open>makeMove\<close> happens after the bounds check of \<^verbatim>\<open>isValidMove\<close>, on loop indices
  0..7, or on the home rank, so only \<open>makeMove\<close> models the throw.
\<close>

definition rowDefined :: "board \<Rightarrow> int \<Rightarrow> bool" where
  "rowDefined b r = (0 \<le> r \<and> r < int (length b))"

definition cell :: "board \<Rightarrow> int \<Rightarrow> int \<Rightarrow> piece option" where
  "cell b r c =
     (if rowDefined b r
      then (if 0 \<le> c \<and> c < int (length (b ! nat r)) then (b ! nat r) ! nat c else None)
      else None)"

text \<open>
  \<^verbatim>\<open>board[r][c] = v\<close>. The engine writes only squares it has read before, so the write
  is modelled on the board's own squares and leaves the grid alone elsewhere.
\<close>

definition setCell :: "board \<Rightarrow> int \<Rightarrow> int \<Rightarrow> piece option \<Rightarrow> board" where
  "setCell b r c v =
     (if rowDefined b r \<and> 0 \<le> c \<and> c < int (length (b ! nat r))
      then b[nat r := (b ! nat r)[nat c := v]]
      else b)"

text \<open>The board of a running game: 8 rows of 8 squares.\<close>

definition wfBoard :: "board \<Rightarrow> bool" where
  "wfBoard b = (length b = 8 \<and> list_all (\<lambda>row. length row = 8) b)"

text \<open>The squares in the order of the nested \<^verbatim>\<open>for\<close> loops: rows 0..7, columns 0..7 in each.\<close>

definition squares :: "(int \<times> int) list" where
  "squares = concat (map (\<lambda>r. map (\<lambda>c. (r, c)) [0, 1, 2, 3, 4, 5, 6, 7]) [0, 1, 2, 3, 4, 5, 6, 7])"

definition opponent :: "color \<Rightarrow> color" where
  "opponent c = (if c = White then Black else White)"

subsection \<open>Strings and numbers\<close>

text \<open>\<^verbatim>\<open>String.fromCharCode(n)\<close> for the code units the engine builds (97 + column).\<close>

definition fromCharCode :: "int \<Rightarrow> char" where
  "fromCharCode n = char_of n"

definition digitChar :: "nat \<Rightarrow> char" where
  "digitChar d = char_of (48 + d)"

fun showNat :: "nat \<Rightarrow> string" where
  "showNat n = (if n < 10 then [digitChar n] else showNat (n div 10) @ [digitChar (n mod 10)])"

declare showNat.simps [simp del]

text \<open>A number converted to a string (\<^verbatim>\<open>toString()\<close>, or \<^verbatim>\<open>+\<close> with a string).\<close>

definition showInt :: "int \<Rightarrow> string" where
  "showInt i = (if i < 0 then CHR ''-'' # showNat (nat (- i)) else showNat (nat i))"

text \<open>
  The en-passant field is a string: \<^verbatim>\<open>'-'\<close>, or a file letter and a rank digit.
  \<^verbatim>\<open>fenEnPassant.charCodeAt(0) - 97\<close> and \<^verbatim>\<open>8 - parseInt(fenEnPassant.charAt(1))\<close> are
  numbers or \<^verbatim>\<open>NaN\<close>; \<open>None\<close> is \<^verbatim>\<open>NaN\<close>, which no coordinate equals.
\<close>

definition epFile :: "string \<Rightarrow> int option" where
  "epFile ep = (case ep of [] \<Rightarrow> None | c # _ \<Rightarrow> Some (int (of_char c) - 97))"

definition epRank :: "string \<Rightarrow> int option" where
  "epRank ep =
     (case ep of
        _ # d # _ \<Rightarrow>
          (if 48 \<le> (of_char d :: nat) \<and> (of_char d :: nat) \<le> 57
           then Some (8 - (int (of_char d) - 48)) else None)
      | _ \<Rightarrow> None)"

definition isEpSquare :: "string \<Rightarrow> int \<Rightarrow> int \<Rightarrow> bool" where
  "isEpSquare ep toRow toCol =
     (ep \<noteq> ''-'' \<and> epFile ep = Some toCol \<and> epRank ep = Some toRow)"

subsection \<open>Piece geometry\<close>

text \<open>
  \<^verbatim>\<open>isPathClear\<close>: the loop walks from the square after \<open>from\<close> towards \<open>to\<close>; \<open>k\<close> counts
  the steps taken, so the loop variables are \<open>row = fromRow + k * rowStep\<close> and
  \<open>col = fromCol + k * colStep\<close>. The engine calls it for two squares of the board on
  one rank, file or diagonal, where the walk ends on \<open>to\<close>; a walk that leaves the
  board (JavaScript throws on the missing row) is cut off there.
\<close>

definition rowStepOf :: "int \<Rightarrow> int \<Rightarrow> int" where
  "rowStepOf fromRow toRow = (if toRow > fromRow then 1 else if toRow < fromRow then - 1 else 0)"

function isPathClearLoop :: "board \<Rightarrow> int \<Rightarrow> int \<Rightarrow> int \<Rightarrow> int \<Rightarrow> nat \<Rightarrow> bool" where
  "isPathClearLoop b fromRow fromCol toRow toCol k =
     (let row = fromRow + int k * rowStepOf fromRow toRow;
          col = fromCol + int k * rowStepOf fromCol toCol
      in if row \<noteq> toRow \<or> col \<noteq> toCol
         then (if row < 0 \<or> 7 < row \<or> col < 0 \<or> 7 < col then False
               else if cell b row col \<noteq> None then False
               else isPathClearLoop b fromRow fromCol toRow toCol (Suc k))
         else True)"
  by pat_completeness auto
termination
  by (relation "measure (\<lambda>(b, fromRow, fromCol, toRow, toCol, k).
        (if toRow > fromRow then nat (8 - (fromRow + int k))
         else if toRow < fromRow then nat (fromRow - int k + 1) else 0) +
        (if toCol > fromCol then nat (8 - (fromCol + int k))
         else if toCol < fromCol then nat (fromCol - int k + 1) else 0))")
     (auto simp: rowStepOf_def split: if_splits)

declare isPathClearLoop.simps [simp del]

definition isPathClear :: "board \<Rightarrow> int \<Rightarrow> int \<Rightarrow> int \<Rightarrow> int \<Rightarrow> bool" where
  "isPathClear b fromRow fromCol toRow toCol = isPathClearLoop b fromRow fromCol toRow toCol 1"

definition isValidRookMove :: "board \<Rightarrow> int \<Rightarrow> int \<Rightarrow> int \<Rightarrow> int \<Rightarrow> bool" where
  "isValidRookMove b fromRow fromCol toRow toCol =
     (if fromRow \<noteq> toRow \<and> fromCol \<noteq> toCol then False
      else isPathClear b fromRow fromCol toRow toCol)"

definition isValidBishopMove :: "board \<Rightarrow> int \<Rightarrow> int \<Rightarrow> int \<Rightarrow> int \<Rightarrow> bool" where
  "isValidBishopMove b fromRow fromCol toRow toCol =
     (if \<bar>toRow - fromRow\<bar> \<noteq> \<bar>toCol - fromCol\<bar> then False
      else isPathClear b fromRow fromCol toRow toCol)"

definition isValidKingMove :: "int \<Rightarrow> int \<Rightarrow> int \<Rightarrow> int \<Rightarrow> bool" where
  "isValidKingMove fromRow fromCol toRow toCol =
     (\<bar>toRow - fromRow\<bar> \<le> 1 \<and> \<bar>toCol - fromCol\<bar> \<le> 1)"

text \<open>\<^verbatim>\<open>isValidPawnMove\<close> reads \<^verbatim>\<open>this.board\<close> and \<^verbatim>\<open>this.fenEnPassant\<close>: both are parameters.\<close>

definition isValidPawnMove :: "board \<Rightarrow> string \<Rightarrow> piece \<Rightarrow> int \<Rightarrow> int \<Rightarrow> int \<Rightarrow> int \<Rightarrow> bool" where
  "isValidPawnMove b ep p fromRow fromCol toRow toCol =
     (let direction = (if color p = White then - 1 else 1);
          startRow = (if color p = White then 6 else 1);
          rowDiff = toRow - fromRow;
          colDiff = \<bar>toCol - fromCol\<bar>
      in if colDiff = 0 \<and> rowDiff = direction \<and> cell b toRow toCol = None then True
         else if colDiff = 0 \<and> fromRow = startRow \<and> rowDiff = 2 * direction
                 \<and> cell b toRow toCol = None \<and> cell b (fromRow + direction) fromCol = None
         then True
         else if colDiff = 1 \<and> rowDiff = direction
         then (case cell b toRow toCol of
                 Some t \<Rightarrow> (if color t \<noteq> color p then True else isEpSquare ep toRow toCol)
               | None \<Rightarrow> isEpSquare ep toRow toCol)
         else False)"

definition isValidPieceMove :: "board \<Rightarrow> string \<Rightarrow> piece \<Rightarrow> int \<Rightarrow> int \<Rightarrow> int \<Rightarrow> int \<Rightarrow> bool" where
  "isValidPieceMove b ep p fromRow fromCol toRow toCol =
     (let rowDiff = \<bar>toRow - fromRow\<bar>; colDiff = \<bar>toCol - fromCol\<bar>
      in case ptype p of
           Pawn \<Rightarrow> isValidPawnMove b ep p fromRow fromCol toRow toCol
         | Rook \<Rightarrow> isValidRookMove b fromRow fromCol toRow toCol
         | Knight \<Rightarrow> (rowDiff = 2 \<and> colDiff = 1) \<or> (rowDiff = 1 \<and> colDiff = 2)
         | Bishop \<Rightarrow> isValidBishopMove b fromRow fromCol toRow toCol
         | Queen \<Rightarrow> isValidRookMove b fromRow fromCol toRow toCol
                    \<or> isValidBishopMove b fromRow fromCol toRow toCol
         | King \<Rightarrow> isValidKingMove fromRow fromCol toRow toCol)"

subsection \<open>Check detection\<close>

text \<open>
  \<^verbatim>\<open>canPieceAttack\<close> swaps \<^verbatim>\<open>this.board\<close> for the board it is given, asks
  \<^verbatim>\<open>isValidPieceMove\<close> and swaps back: the geometry on the given board, with the engine's
  en-passant field.
\<close>

definition canPieceAttack :: "string \<Rightarrow> piece \<Rightarrow> int \<Rightarrow> int \<Rightarrow> int \<Rightarrow> int \<Rightarrow> board \<Rightarrow> bool" where
  "canPieceAttack ep p fromRow fromCol targetRow targetCol b =
     isValidPieceMove b ep p fromRow fromCol targetRow targetCol"

definition isKingOf :: "color \<Rightarrow> piece option \<Rightarrow> bool" where
  "isKingOf c q = (case q of Some p \<Rightarrow> ptype p = King \<and> color p = c | None \<Rightarrow> False)"

text \<open>The first king of the colour in loop order (both loops \<^verbatim>\<open>break\<close> at it).\<close>

definition findKing :: "board \<Rightarrow> color \<Rightarrow> (int \<times> int) option" where
  "findKing b c = find (\<lambda>(row, col). isKingOf c (cell b row col)) squares"

definition isInCheckOnBoard :: "string \<Rightarrow> color \<Rightarrow> board \<Rightarrow> bool" where
  "isInCheckOnBoard ep c b =
     (case findKing b c of
        None \<Rightarrow> False
      | Some (kingRow, kingCol) \<Rightarrow>
          list_ex (\<lambda>(row, col).
              case cell b row col of
                Some p \<Rightarrow> color p = opponent c \<and> canPieceAttack ep p row col kingRow kingCol b
              | None \<Rightarrow> False)
            squares)"

subsection \<open>Move legality\<close>

text \<open>
  \<^verbatim>\<open>isValidMove\<close> reads the board, the side to move and the en-passant field.
  \<^verbatim>\<open>getDisambiguation\<close> calls it with \<^verbatim>\<open>this.board\<close> swapped, so the three are parameters
  of \<open>isValidMoveOn\<close>. The scratch board gets the piece on \<open>to\<close> and \<^verbatim>\<open>null\<close> on \<open>from\<close>,
  nothing else.
\<close>

definition isValidMoveOn :: "board \<Rightarrow> color \<Rightarrow> string \<Rightarrow> int \<Rightarrow> int \<Rightarrow> int \<Rightarrow> int \<Rightarrow> bool" where
  "isValidMoveOn b player ep fromRow fromCol toRow toCol =
     (if fromRow < 0 \<or> fromRow > 7 \<or> fromCol < 0 \<or> fromCol > 7
         \<or> toRow < 0 \<or> toRow > 7 \<or> toCol < 0 \<or> toCol > 7
      then False
      else case cell b fromRow fromCol of
        None \<Rightarrow> False
      | Some p \<Rightarrow>
          if color p \<noteq> player then False
          else if (case cell b toRow toCol of Some t \<Rightarrow> color t = color p | None \<Rightarrow> False)
          then False
          else if \<not> isValidPieceMove b ep p fromRow fromCol toRow toCol then False
          else
            (let testBoard = setCell (setCell b toRow toCol (Some p)) fromRow fromCol None
             in if isInCheckOnBoard ep (color p) testBoard then False else True))"

subsection \<open>The engine state\<close>

record castleFlags =
  king :: bool
  rookQueen :: bool
  rookKing :: bool

record castlingRights =
  white :: castleFlags
  black :: castleFlags

text \<open>\<^verbatim>\<open>fenCastling = { K, Q, k, q }\<close>.\<close>

record fenCastling =
  fenK :: bool
  fenQ :: bool
  fenk :: bool
  fenq :: bool

text \<open>\<^verbatim>\<open>pendingPromotion = { fromRow, fromCol, toRow, toCol, color }\<close>.\<close>

record pendingPromotion =
  pFromRow :: int
  pFromCol :: int
  pToRow :: int
  pToCol :: int
  pColor :: color

datatype winner = Winner color | Draw

text \<open>
  The fields \<^verbatim>\<open>saveGameState\<close> copies into \<^verbatim>\<open>gameStateHistory\<close> form the record
  \<open>snapshot\<close>; the engine extends it with the others. \<^verbatim>\<open>selectedSquare\<close> is written by
  no method of the engine but the constructor and is left out.
\<close>

record snapshot =
  board :: board
  currentPlayer :: color
  castlingRights :: castlingRights
  fenCastling :: fenCastling
  fenEnPassant :: string
  halfmoveClock :: int
  moveHistory :: "string list"

record engine = snapshot +
  gameStateHistory :: "snapshot list"
  isGameOver :: bool
  gameWinner :: "winner option"
  pendingPromotion :: "pendingPromotion option"
  positionHistory :: "string list"

text \<open>The glyph of each piece, as \<^verbatim>\<open>initializeBoard\<close> and the promotion table write it.\<close>

definition glyph :: "color \<Rightarrow> ptype \<Rightarrow> int" where
  "glyph c t =
     (case (c, t) of
        (White, King) \<Rightarrow> 9812 | (White, Queen) \<Rightarrow> 9813 | (White, Rook) \<Rightarrow> 9814
      | (White, Bishop) \<Rightarrow> 9815 | (White, Knight) \<Rightarrow> 9816 | (White, Pawn) \<Rightarrow> 9817
      | (Black, King) \<Rightarrow> 9818 | (Black, Queen) \<Rightarrow> 9819 | (Black, Rook) \<Rightarrow> 9820
      | (Black, Bishop) \<Rightarrow> 9821 | (Black, Knight) \<Rightarrow> 9822 | (Black, Pawn) \<Rightarrow> 9823)"

definition newPiece :: "color \<Rightarrow> ptype \<Rightarrow> piece option" where
  "newPiece c t = Some \<lparr>symbol = glyph c t, ptype = t, color = c\<rparr>"

definition allRights :: castleFlags where
  "allRights = \<lparr>king = True, rookQueen = True, rookKing = True\<rparr>"

definition startBoard :: board where
  "startBoard =
     [map (newPiece Black) [Rook, Knight, Bishop, Queen, King, Bishop, Knight, Rook],
      replicate 8 (newPiece Black Pawn),
      replicate 8 None,
      replicate 8 None,
      replicate 8 None,
      replicate 8 None,
      replicate 8 (newPiece White Pawn),
      map (newPiece White) [Rook, Knight, Bishop, Queen, King, Bishop, Knight, Rook]]"

text \<open>The engine after \<^verbatim>\<open>new ChessEngine()\<close> and \<^verbatim>\<open>initializeBoard()\<close>.\<close>

definition initializeBoard :: engine where
  "initializeBoard =
     \<lparr>board = startBoard,
      currentPlayer = White,
      castlingRights = \<lparr>white = allRights, black = allRights\<rparr>,
      fenCastling = \<lparr>fenK = True, fenQ = True, fenk = True, fenq = True\<rparr>,
      fenEnPassant = ''-'',
      halfmoveClock = 0,
      moveHistory = [],
      gameStateHistory = [],
      isGameOver = False,
      gameWinner = None,
      pendingPromotion = None,
      positionHistory = []\<rparr>"

definition isValidMove :: "engine \<Rightarrow> int \<Rightarrow> int \<Rightarrow> int \<Rightarrow> int \<Rightarrow> bool" where
  "isValidMove s fromRow fromCol toRow toCol =
     isValidMoveOn (board s) (currentPlayer s) (fenEnPassant s) fromRow fromCol toRow toCol"

definition isInCheck :: "engine \<Rightarrow> color \<Rightarrow> bool" where
  "isInCheck s c = isInCheckOnBoard (fenEnPassant s) c (board s)"

subsection \<open>Castling\<close>

datatype side = Kingside | Queenside

definition isCastlingMove :: "piece option \<Rightarrow> int \<Rightarrow> int \<Rightarrow> int \<Rightarrow> int \<Rightarrow> bool" where
  "isCastlingMove q fromRow fromCol toRow toCol =
     (case q of
        None \<Rightarrow> False
      | Some p \<Rightarrow>
          ptype p = King \<and> fromCol = 4 \<and> (toCol = 6 \<or> toCol = 2) \<and> fromRow = toRow
          \<and> ((color p = White \<and> fromRow = 7) \<or> (color p = Black \<and> fromRow = 0)))"

text \<open>The attack test without the legality check, on the engine's own board.\<close>

definition canPieceAttackSimple :: "board \<Rightarrow> piece \<Rightarrow> int \<Rightarrow> int \<Rightarrow> int \<Rightarrow> int \<Rightarrow> bool" where
  "canPieceAttackSimple b p fromRow fromCol targetRow targetCol =
     (case ptype p of
        Pawn \<Rightarrow>
          (let direction = (if color p = White then - 1 else 1);
               rowDiff = targetRow - fromRow;
               colDiff = \<bar>targetCol - fromCol\<bar>
           in colDiff = 1 \<and> rowDiff = direction)
      | Rook \<Rightarrow> (fromRow = targetRow \<or> fromCol = targetCol)
                 \<and> isPathClear b fromRow fromCol targetRow targetCol
      | Bishop \<Rightarrow> \<bar>fromRow - targetRow\<bar> = \<bar>fromCol - targetCol\<bar>
                   \<and> isPathClear b fromRow fromCol targetRow targetCol
      | Queen \<Rightarrow> ((fromRow = targetRow \<or> fromCol = targetCol)
                    \<or> \<bar>fromRow - targetRow\<bar> = \<bar>fromCol - targetCol\<bar>)
                  \<and> isPathClear b fromRow fromCol targetRow targetCol
      | King \<Rightarrow> \<bar>fromRow - targetRow\<bar> \<le> 1 \<and> \<bar>fromCol - targetCol\<bar> \<le> 1
      | Knight \<Rightarrow>
          (let rowDiff = \<bar>fromRow - targetRow\<bar>; colDiff = \<bar>fromCol - targetCol\<bar>
           in (rowDiff = 2 \<and> colDiff = 1) \<or> (rowDiff = 1 \<and> colDiff = 2)))"

definition isSquareUnderAttackSimple :: "engine \<Rightarrow> int \<Rightarrow> int \<Rightarrow> color \<Rightarrow> bool" where
  "isSquareUnderAttackSimple s row col defenderColor =
     list_ex (\<lambda>(r, c).
         case cell (board s) r c of
           Some p \<Rightarrow> color p = opponent defenderColor
                     \<and> canPieceAttackSimple (board s) p r c row col
         | None \<Rightarrow> False)
       squares"

definition isInCheckSimple :: "engine \<Rightarrow> color \<Rightarrow> bool" where
  "isInCheckSimple s c =
     (case findKing (board s) c of
        None \<Rightarrow> False
      | Some (kingRow, kingCol) \<Rightarrow>
          list_ex (\<lambda>(row, col).
              case cell (board s) row col of
                Some p \<Rightarrow> color p = opponent c
                          \<and> canPieceAttackSimple (board s) p row col kingRow kingCol
              | None \<Rightarrow> False)
            squares)"

definition rightsOf :: "engine \<Rightarrow> color \<Rightarrow> castleFlags" where
  "rightsOf s c = (if c = White then white (castlingRights s) else black (castlingRights s))"

definition homeRow :: "color \<Rightarrow> int" where
  "homeRow c = (if c = White then 7 else 0)"

text \<open>
  \<^verbatim>\<open>canCastle\<close>: the two flags, the check test, then the loop over the columns 5..6
  (kingside) or 1..3 (queenside, where the attack test is skipped for column 1).
\<close>

definition canCastle :: "engine \<Rightarrow> color \<Rightarrow> side \<Rightarrow> bool" where
  "canCastle s c sd =
     (let row = homeRow c in
      if \<not> king (rightsOf s c) then False
      else if sd = Kingside \<and> \<not> rookKing (rightsOf s c) then False
      else if sd = Queenside \<and> \<not> rookQueen (rightsOf s c) then False
      else if isInCheckSimple s c then False
      else if sd = Kingside
      then list_all (\<lambda>col. cell (board s) row col = None
                            \<and> \<not> isSquareUnderAttackSimple s row col c) [5, 6]
      else list_all (\<lambda>col. cell (board s) row col = None
                            \<and> \<not> (col \<ge> 2 \<and> isSquareUnderAttackSimple s row col c)) [1, 2, 3])"

definition revokeAll :: "engine \<Rightarrow> color \<Rightarrow> engine" where
  "revokeAll s c =
     (if c = White
      then s\<lparr>castlingRights := (castlingRights s)\<lparr>white := \<lparr>king = False, rookQueen = False, rookKing = False\<rparr>\<rparr>,
             fenCastling := (fenCastling s)\<lparr>fenK := False, fenQ := False\<rparr>\<rparr>
      else s\<lparr>castlingRights := (castlingRights s)\<lparr>black := \<lparr>king = False, rookQueen = False, rookKing = False\<rparr>\<rparr>,
             fenCastling := (fenCastling s)\<lparr>fenk := False, fenq := False\<rparr>\<rparr>)"

text \<open>
  \<^verbatim>\<open>handleCastling(side, prevBoard)\<close> works for \<^verbatim>\<open>this.currentPlayer\<close>; it never reads
  \<^verbatim>\<open>prevBoard\<close>. It returns \<^verbatim>\<open>false\<close> or \<^verbatim>\<open>true\<close> and the engine it leaves.
\<close>

definition handleCastling :: "engine \<Rightarrow> side \<Rightarrow> bool \<times> engine" where
  "handleCastling s sd =
     (let row = homeRow (currentPlayer s);
          kingPiece = cell (board s) row 4
      in if \<not> canCastle s (currentPlayer s) sd then (False, s)
         else
           (let s1 =
                  (if sd = Kingside
                   then (let b1 = setCell (board s) row 6 kingPiece;
                             b2 = setCell b1 row 5 (cell b1 row 7);
                             b3 = setCell b2 row 4 None;
                             b4 = setCell b3 row 7 None
                         in s\<lparr>board := b4, moveHistory := moveHistory s @ [''O-O'']\<rparr>)
                   else (let b1 = setCell (board s) row 2 kingPiece;
                             b2 = setCell b1 row 3 (cell b1 row 0);
                             b3 = setCell b2 row 4 None;
                             b4 = setCell b3 row 0 None
                         in s\<lparr>board := b4, moveHistory := moveHistory s @ [''O-O-O'']\<rparr>));
                s2 = revokeAll s1 (currentPlayer s)
            in (True, s2\<lparr>currentPlayer := opponent (currentPlayer s)\<rparr>)))"

subsection \<open>Bookkeeping of a move\<close>

definition saveGameState :: "engine \<Rightarrow> engine" where
  "saveGameState s = s\<lparr>gameStateHistory := gameStateHistory s @ [snapshot.truncate s]\<rparr>"

definition updateCastlingRights :: "engine \<Rightarrow> piece \<Rightarrow> int \<Rightarrow> engine" where
  "updateCastlingRights s p fromCol =
     (let cr = castlingRights s; fc = fenCastling s in
      if ptype p = King
      then (if color p = White
            then s\<lparr>castlingRights := cr\<lparr>white := (white cr)\<lparr>king := False\<rparr>\<rparr>,
                   fenCastling := fc\<lparr>fenK := False, fenQ := False\<rparr>\<rparr>
            else s\<lparr>castlingRights := cr\<lparr>black := (black cr)\<lparr>king := False\<rparr>\<rparr>,
                   fenCastling := fc\<lparr>fenk := False, fenq := False\<rparr>\<rparr>)
      else if ptype p = Rook
      then (if color p = White
            then (if fromCol = 0
                  then s\<lparr>castlingRights := cr\<lparr>white := (white cr)\<lparr>rookQueen := False\<rparr>\<rparr>,
                         fenCastling := fc\<lparr>fenQ := False\<rparr>\<rparr>
                  else if fromCol = 7
                  then s\<lparr>castlingRights := cr\<lparr>white := (white cr)\<lparr>rookKing := False\<rparr>\<rparr>,
                         fenCastling := fc\<lparr>fenK := False\<rparr>\<rparr>
                  else s)
            else (if fromCol = 0
                  then s\<lparr>castlingRights := cr\<lparr>black := (black cr)\<lparr>rookQueen := False\<rparr>\<rparr>,
                         fenCastling := fc\<lparr>fenq := False\<rparr>\<rparr>
                  else if fromCol = 7
                  then s\<lparr>castlingRights := cr\<lparr>black := (black cr)\<lparr>rookKing := False\<rparr>\<rparr>,
                         fenCastling := fc\<lparr>fenk := False\<rparr>\<rparr>
                  else s))
      else s)"

text \<open>\<^verbatim>\<open>handleEnPassant\<close> removes the captured pawn and says whether it did.\<close>

definition handleEnPassant :: "engine \<Rightarrow> piece \<Rightarrow> int \<Rightarrow> int \<Rightarrow> int \<Rightarrow> int \<Rightarrow> bool \<times> engine" where
  "handleEnPassant s p fromRow fromCol toRow toCol =
     (if ptype p = Pawn \<and> cell (board s) toRow toCol = None \<and> \<bar>toCol - fromCol\<bar> = 1
         \<and> isEpSquare (fenEnPassant s) toRow toCol
      then (let capturedPawnRow = (if color p = White then toRow + 1 else toRow - 1)
            in (True, s\<lparr>board := setCell (board s) capturedPawnRow toCol None\<rparr>))
      else (False, s))"

text \<open>
  \<^verbatim>\<open>updateEnPassantTarget\<close>: \<^verbatim>\<open>(fromRow + toRow) / 2\<close> is taken only when the rows differ
  by two, where the sum is even and the quotient exact.
\<close>

definition updateEnPassantTarget :: "engine \<Rightarrow> piece \<Rightarrow> int \<Rightarrow> int \<Rightarrow> int \<Rightarrow> int \<Rightarrow> engine" where
  "updateEnPassantTarget s p fromRow fromCol toRow toCol =
     (if ptype p = Pawn \<and> \<bar>toRow - fromRow\<bar> = 2
      then (let epCol = fromCol; epRow = (fromRow + toRow) div 2
            in s\<lparr>fenEnPassant := fromCharCode (97 + epCol) # showInt (8 - epRow)\<rparr>)
      else s\<lparr>fenEnPassant := ''-''\<rparr>)"

definition isPawnPromotion :: "engine \<Rightarrow> int \<Rightarrow> int \<Rightarrow> int \<Rightarrow> int \<Rightarrow> bool" where
  "isPawnPromotion s fromRow fromCol toRow toCol =
     (case cell (board s) fromRow fromCol of
        Some p \<Rightarrow> ptype p = Pawn
                  \<and> ((color p = White \<and> toRow = 0) \<or> (color p = Black \<and> toRow = 7))
      | None \<Rightarrow> False)"

subsection \<open>Legal moves and the end of the game\<close>

type_synonym move = "(int \<times> int) \<times> (int \<times> int)"

definition getAllLegalMovesForColor :: "engine \<Rightarrow> color \<Rightarrow> move list" where
  "getAllLegalMovesForColor s c =
     concat (map (\<lambda>(row, col).
         case cell (board s) row col of
           Some p \<Rightarrow>
             (if color p = c
              then map (\<lambda>dest. ((row, col), dest))
                     (filter (\<lambda>(toRow, toCol). isValidMove s row col toRow toCol) squares)
              else [])
         | None \<Rightarrow> [])
       squares)"

definition getAllLegalMoves :: "engine \<Rightarrow> move list" where
  "getAllLegalMoves s = getAllLegalMovesForColor s (currentPlayer s)"

definition colorName :: "color \<Rightarrow> string" where
  "colorName c = (if c = White then ''white'' else ''black'')"

definition typeName :: "ptype \<Rightarrow> string" where
  "typeName t =
     (case t of Pawn \<Rightarrow> ''pawn'' | Rook \<Rightarrow> ''rook'' | Knight \<Rightarrow> ''knight''
      | Bishop \<Rightarrow> ''bishop'' | Queen \<Rightarrow> ''queen'' | King \<Rightarrow> ''king'')"

text \<open>
  \<^verbatim>\<open>generatePositionKey\<close>: two characters per square (\<^verbatim>\<open>color[0]\<close> and \<^verbatim>\<open>type[0]\<close>, or
  \<^verbatim>\<open>'--'\<close>), the first letter of the side to move, the FEN castling letters, the
  en-passant field.
\<close>

definition generatePositionKey :: "engine \<Rightarrow> string" where
  "generatePositionKey s =
     concat (map (\<lambda>(row, col).
         case cell (board s) row col of
           Some p \<Rightarrow> [hd (colorName (color p)), hd (typeName (ptype p))]
         | None \<Rightarrow> ''--'')
       squares)
     @ [hd (colorName (currentPlayer s))]
     @ (if fenK (fenCastling s) then ''K'' else [])
     @ (if fenQ (fenCastling s) then ''Q'' else [])
     @ (if fenk (fenCastling s) then ''k'' else [])
     @ (if fenq (fenCastling s) then ''q'' else [])
     @ fenEnPassant s"

definition isThreefoldRepetition :: "engine \<Rightarrow> bool" where
  "isThreefoldRepetition s =
     (3 \<le> length (filter (\<lambda>position. position = generatePositionKey s) (positionHistory s)))"

datatype gameEnd = Checkmate | Stalemate | FiftyMoves | Repetition

definition checkGameEndConditions :: "engine \<Rightarrow> gameEnd option \<times> engine" where
  "checkGameEndConditions s =
     (if getAllLegalMoves s = []
      then (if isInCheck s (currentPlayer s)
            then (Some Checkmate,
                  s\<lparr>isGameOver := True, gameWinner := Some (Winner (opponent (currentPlayer s)))\<rparr>)
            else (Some Stalemate, s\<lparr>isGameOver := True, gameWinner := Some Draw\<rparr>))
      else if halfmoveClock s \<ge> 100
      then (Some FiftyMoves, s\<lparr>isGameOver := True, gameWinner := Some Draw\<rparr>)
      else if isThreefoldRepetition s
      then (Some Repetition, s\<lparr>isGameOver := True, gameWinner := Some Draw\<rparr>)
      else (None, s))"

subsection \<open>Notation of an executed move\<close>

definition fileOf :: "int \<Rightarrow> string" where
  "fileOf col = [fromCharCode (97 + col)]"

definition rankOf :: "int \<Rightarrow> string" where
  "rankOf row = showInt (8 - row)"

text \<open>
  \<^verbatim>\<open>getDisambiguation\<close> asks \<^verbatim>\<open>isValidMove\<close> on the board before the move, with the
  engine's side to move and en-passant field as they are when the notation is written.
\<close>

definition getDisambiguation :: "engine \<Rightarrow> piece \<Rightarrow> int \<Rightarrow> int \<Rightarrow> int \<Rightarrow> int \<Rightarrow> board \<Rightarrow> string" where
  "getDisambiguation s p fromRow fromCol toRow toCol prevBoard =
     (let sameTypePieces =
            filter (\<lambda>(row, col).
                case cell prevBoard row col of
                  Some other \<Rightarrow>
                    ptype other = ptype p \<and> color other = color p
                    \<and> (row \<noteq> fromRow \<or> col \<noteq> fromCol)
                    \<and> isValidMoveOn prevBoard (currentPlayer s) (fenEnPassant s) row col toRow toCol
                | None \<Rightarrow> False)
              squares
      in if sameTypePieces = [] then []
         else if filter (\<lambda>(row, col). col = fromCol) sameTypePieces = [] then fileOf fromCol
         else if filter (\<lambda>(row, col). row = fromRow) sameTypePieces = [] then rankOf fromRow
         else fileOf fromCol @ rankOf fromRow)"

definition pieceLetter :: "ptype \<Rightarrow> string" where
  "pieceLetter t =
     (case t of Knight \<Rightarrow> ''N'' | King \<Rightarrow> ''K'' | Queen \<Rightarrow> ''Q'' | Rook \<Rightarrow> ''R''
      | Bishop \<Rightarrow> ''B'' | Pawn \<Rightarrow> ''P'')"

text \<open>
  \<^verbatim>\<open>getAlgebraicNotation\<close> as \<^verbatim>\<open>makeMove\<close> calls it: with \<^verbatim>\<open>isCapture\<close>, \<^verbatim>\<open>prevBoard\<close> and
  \<^verbatim>\<open>isEnPassant\<close>, and no \<^verbatim>\<open>promotion\<close>. The check suffix asks for the opponent's legal
  moves while the mover is still the side to move.
\<close>

definition getAlgebraicNotation ::
  "engine \<Rightarrow> int \<Rightarrow> int \<Rightarrow> int \<Rightarrow> int \<Rightarrow> bool \<Rightarrow> board \<Rightarrow> bool \<Rightarrow> string" where
  "getAlgebraicNotation s fromRow fromCol toRow toCol isCapture prevBoard isEnPassant =
     (let actualPiece =
            (case cell (board s) fromRow fromCol of
               Some p \<Rightarrow> Some p
             | None \<Rightarrow> cell prevBoard fromRow fromCol)
      in case actualPiece of
           None \<Rightarrow> ''??''
         | Some p \<Rightarrow>
             (let notation =
                    (if ptype p = Pawn
                     then (if isCapture \<or> isEnPassant
                           then fileOf fromCol @ ''x'' @ fileOf toCol @ rankOf toRow
                           else fileOf toCol @ rankOf toRow)
                          @ (if isEnPassant then '' e.p.'' else [])
                     else pieceLetter (ptype p)
                          @ getDisambiguation s p fromRow fromCol toRow toCol prevBoard
                          @ (if isCapture then ''x'' else [])
                          @ fileOf toCol @ rankOf toRow);
                  opponentColor = opponent (color p)
              in if isInCheck s opponentColor
                 then (if getAllLegalMovesForColor s opponentColor = []
                       then notation @ ''#'' else notation @ ''+'')
                 else notation))"

subsection \<open>makeMove\<close>

text \<open>
  \<^verbatim>\<open>makeMove\<close> returns \<^verbatim>\<open>false\<close>, \<^verbatim>\<open>true\<close> or \<^verbatim>\<open>'promotion'\<close>, or throws: its first read,
  \<^verbatim>\<open>this.board[fromRow][fromCol]\<close>, comes before any bounds check and throws a
  TypeError when the board has no row \<open>fromRow\<close>.
\<close>

datatype moveResult = Rejected | Applied | Promotion

datatype fault = TypeError

definition truthy :: "'a option \<Rightarrow> bool" where
  "truthy x = (case x of Some _ \<Rightarrow> True | None \<Rightarrow> False)"

definition sideOf :: "int \<Rightarrow> side" where
  "sideOf toCol = (if toCol = 6 then Kingside else Queenside)"

definition castlingResult :: "bool \<times> engine \<Rightarrow> fault + moveResult \<times> engine" where
  "castlingResult r = (case r of (ok, s') \<Rightarrow> Inr (if ok then Applied else Rejected, s'))"

definition makeMove :: "engine \<Rightarrow> int \<Rightarrow> int \<Rightarrow> int \<Rightarrow> int \<Rightarrow> fault + moveResult \<times> engine" where
  "makeMove s fromRow fromCol toRow toCol =
     (if truthy (pendingPromotion s) \<or> isGameOver s then Inr (Rejected, s)
      else if \<not> rowDefined (board s) fromRow then Inl TypeError
      else case cell (board s) fromRow fromCol of
        None \<Rightarrow> Inr (Rejected, s)
      | Some p \<Rightarrow>
          if isCastlingMove (Some p) fromRow fromCol toRow toCol
          then (if canCastle s (color p) (sideOf toCol)
                then castlingResult (handleCastling s (sideOf toCol))
                else Inr (Rejected, s))
          else if \<not> isValidMove s fromRow fromCol toRow toCol then Inr (Rejected, s)
          else
            (let s1 = saveGameState s;
                 prevBoard = board s1
             in if isCastlingMove (Some p) fromRow fromCol toRow toCol
                then castlingResult (handleCastling s1 (sideOf toCol))
                else
                  (let s2 = updateCastlingRights s1 p fromCol;
                       ep = handleEnPassant s2 p fromRow fromCol toRow toCol;
                       isEnPassant = fst ep;
                       s3 = updateEnPassantTarget (snd ep) p fromRow fromCol toRow toCol;
                       isCapture = (case cell (board s3) toRow toCol of
                                      Some t \<Rightarrow> color t \<noteq> color p | None \<Rightarrow> False);
                       s4 = (if ptype p = Pawn \<or> isCapture \<or> isEnPassant
                             then s3\<lparr>halfmoveClock := 0\<rparr>
                             else s3\<lparr>halfmoveClock := halfmoveClock s3 + 1\<rparr>)
                   in if isPawnPromotion s4 fromRow fromCol toRow toCol
                      then Inr (Promotion,
                             s4\<lparr>pendingPromotion :=
                                  Some \<lparr>pFromRow = fromRow, pFromCol = fromCol, pToRow = toRow,
                                        pToCol = toCol, pColor = color p\<rparr>\<rparr>)
                      else
                        (let s5 = s4\<lparr>board := setCell (setCell (board s4) toRow toCol (Some p))
                                                  fromRow fromCol None\<rparr>;
                             algebraicNotation =
                               getAlgebraicNotation s5 fromRow fromCol toRow toCol
                                 (isCapture \<or> isEnPassant) prevBoard isEnPassant;
                             s6 = s5\<lparr>moveHistory := moveHistory s5 @ [algebraicNotation]\<rparr>;
                             s7 = s6\<lparr>currentPlayer := opponent (currentPlayer s6)\<rparr>;
                             s8 = s7\<lparr>positionHistory := positionHistory s7 @ [generatePositionKey s7]\<rparr>
                         in Inr (Applied, snd (checkGameEndConditions s8))))))"

section \<open>The callers in \<^verbatim>\<open>src/js/ui-manager.js\<close>\<close>

subsection \<open>Resolving a promotion\<close>

text \<open>
  \<^verbatim>\<open>executePromotion(pieceType)\<close> looks the glyph up in a table with the keys queen, rook,
  bishop and knight; the promotion buttons and the AI reply pass one of these.
\<close>

datatype promotionType = ToQueen | ToRook | ToBishop | ToKnight

definition promotedType :: "promotionType \<Rightarrow> ptype" where
  "promotedType t =
     (case t of ToQueen \<Rightarrow> Queen | ToRook \<Rightarrow> Rook | ToBishop \<Rightarrow> Bishop | ToKnight \<Rightarrow> Knight)"

definition getPromotionNotation :: "pendingPromotion \<Rightarrow> promotionType \<Rightarrow> string" where
  "getPromotionNotation promotion t =
     fileOf (pFromCol promotion) @ fileOf (pToCol promotion) @ showInt (8 - pToRow promotion)
     @ ''='' @ pieceLetter (promotedType t)"

text \<open>
  Without a pending promotion the method returns at once. \<^verbatim>\<open>piece.color\<close> throws when the
  from-square of the pending promotion is empty.
\<close>

definition executePromotion :: "engine \<Rightarrow> promotionType \<Rightarrow> fault + engine" where
  "executePromotion s t =
     (case pendingPromotion s of
        None \<Rightarrow> Inr s
      | Some promotion \<Rightarrow>
          (case cell (board s) (pFromRow promotion) (pFromCol promotion) of
             None \<Rightarrow> Inl TypeError
           | Some p \<Rightarrow>
               (let b1 = setCell (board s) (pToRow promotion) (pToCol promotion)
                           (newPiece (color p) (promotedType t));
                    b2 = setCell b1 (pFromRow promotion) (pFromCol promotion) None;
                    s1 = s\<lparr>board := b2,
                           moveHistory := moveHistory s @ [getPromotionNotation promotion t]\<rparr>;
                    s2 = s1\<lparr>currentPlayer := opponent (currentPlayer s1),
                            pendingPromotion := None\<rparr>
                in Inr (snd (checkGameEndConditions s2)))))"

subsection \<open>Resolving a piece-move token\<close>

text \<open>
  \<^verbatim>\<open>findPieceForMove(pieceType, disambiguation, toRow, toCol)\<close>: \<open>pieceType\<close> is the letter
  the token starts with, \<open>disambiguation\<close> the hint between the letter and the
  destination (\<open>[]\<close> when the token has none; the pattern allows a file letter, a rank
  digit or both), and the destination is a square of the board.
\<close>

definition pieceOfLetter :: "char \<Rightarrow> ptype option" where
  "pieceOfLetter ch =
     (if ch = CHR ''k'' then Some King else if ch = CHR ''q'' then Some Queen
      else if ch = CHR ''r'' then Some Rook else if ch = CHR ''b'' then Some Bishop
      else if ch = CHR ''n'' then Some Knight else if ch = CHR ''p'' then Some Pawn
      else None)"

definition isDigit :: "char \<Rightarrow> bool" where
  "isDigit ch = (48 \<le> (of_char ch :: nat) \<and> (of_char ch :: nat) \<le> 57)"

text \<open>\<^verbatim>\<open>parseInt\<close> of a hint: the number its leading digits spell, \<^verbatim>\<open>NaN\<close> without one.\<close>

definition parseInt :: "string \<Rightarrow> int option" where
  "parseInt str =
     (let ds = takeWhile isDigit str
      in if ds = [] then None
         else Some (foldl (\<lambda>acc ch. 10 * acc + (int (of_char ch) - 48)) 0 ds))"

definition candidatesFor :: "engine \<Rightarrow> int \<Rightarrow> string \<Rightarrow> (int \<times> int) list" where
  "candidatesFor s targetSymbol disambiguation =
     (let candidates =
            filter (\<lambda>(row, col).
                case cell (board s) row col of
                  Some p \<Rightarrow> color p = currentPlayer s \<and> symbol p = targetSymbol
                | None \<Rightarrow> False)
              squares
      in if disambiguation = [] then candidates
         else if length disambiguation = 1
         then filter (\<lambda>(row, col). Some col = epFile disambiguation) candidates
         else filter (\<lambda>(row, col). Some (8 - row) = parseInt disambiguation) candidates)"

definition findPieceForMove :: "engine \<Rightarrow> char \<Rightarrow> string \<Rightarrow> int \<Rightarrow> int \<Rightarrow> (int \<times> int) option" where
  "findPieceForMove s pieceType disambiguation toRow toCol =
     (case pieceOfLetter pieceType of
        None \<Rightarrow> None
      | Some t \<Rightarrow>
          find (\<lambda>(row, col).
              \<not> (case cell (board s) toRow toCol of
                    Some target \<Rightarrow> color target = currentPlayer s
                  | None \<Rightarrow> False)
              \<and> isValidMove s row col toRow toCol)
            (candidatesFor s (glyph (currentPlayer s) t) disambiguation))"

definition handlePieceMove :: "engine \<Rightarrow> char \<Rightarrow> string \<Rightarrow> int \<Rightarrow> int \<Rightarrow> fault + moveResult \<times> engine" where
  "handlePieceMove s pieceType disambiguation toRow toCol =
     (case findPieceForMove s pieceType disambiguation toRow toCol of
        Some (row, col) \<Rightarrow> makeMove s row col toRow toCol
      | None \<Rightarrow> Inr (Rejected, s))"

section \<open>Reachable engines\<close>

text \<open>
  The engines a game can be in: the initialised one, and whatever \<^verbatim>\<open>makeMove\<close>,
  \<^verbatim>\<open>executePromotion\<close> and \<^verbatim>\<open>handleCastling\<close> (which the AI reply calls directly) leave.
\<close>

inductive reachable :: "engine \<Rightarrow> bool" where
  init: "reachable initializeBoard"
| move: "reachable s \<Longrightarrow> makeMove s fromRow fromCol toRow toCol = Inr (r, s') \<Longrightarrow> reachable s'"
| promote: "reachable s \<Longrightarrow> executePromotion s t = Inr s' \<Longrightarrow> reachable s'"
| castle: "reachable s \<Longrightarrow> handleCastling s sd = (ok, s') \<Longrightarrow> reachable s'"

section \<open>Notions for the proofs\<close>

text \<open>
  Two stations of a move that passes the legality check of \<open>makeMove\<close>: \<open>preMove\<close> is the
  engine when the promotion test is made (state saved, castling rights, en-passant
  capture, en-passant field and halfmove clock done), \<open>postMove\<close> the engine handed to
  \<^verbatim>\<open>checkGameEndConditions\<close>.
\<close>

definition preMove :: "engine \<Rightarrow> piece \<Rightarrow> int \<Rightarrow> int \<Rightarrow> int \<Rightarrow> int \<Rightarrow> engine" where
  "preMove s p fromRow fromCol toRow toCol =
     (let s2 = updateCastlingRights (saveGameState s) p fromCol;
          ep = handleEnPassant s2 p fromRow fromCol toRow toCol;
          s3 = updateEnPassantTarget (snd ep) p fromRow fromCol toRow toCol;
          isCapture = (case cell (board s3) toRow toCol of
                         Some t \<Rightarrow> color t \<noteq> color p | None \<Rightarrow> False)
      in if ptype p = Pawn \<or> isCapture \<or> fst ep
         then s3\<lparr>halfmoveClock := 0\<rparr>
         else s3\<lparr>halfmoveClock := halfmoveClock s3 + 1\<rparr>)"

definition postMove :: "engine \<Rightarrow> piece \<Rightarrow> int \<Rightarrow> int \<Rightarrow> int \<Rightarrow> int \<Rightarrow> engine" where
  "postMove s p fromRow fromCol toRow toCol =
     (let s1 = saveGameState s;
          prevBoard = board s1;
          s2 = updateCastlingRights s1 p fromCol;
          ep = handleEnPassant s2 p fromRow fromCol toRow toCol;
          isEnPassant = fst ep;
          s3 = updateEnPassantTarget (snd ep) p fromRow fromCol toRow toCol;
          isCapture = (case cell (board s3) toRow toCol of
                         Some t \<Rightarrow> color t \<noteq> color p | None \<Rightarrow> False);
          s4 = (if ptype p = Pawn \<or> isCapture \<or> isEnPassant
                then s3\<lparr>halfmoveClock := 0\<rparr>
                else s3\<lparr>halfmoveClock := halfmoveClock s3 + 1\<rparr>);
          s5 = s4\<lparr>board := setCell (setCell (board s4) toRow toCol (Some p)) fromRow fromCol None\<rparr>;
          algebraicNotation =
            getAlgebraicNotation s5 fromRow fromCol toRow toCol
              (isCapture \<or> isEnPassant) prevBoard isEnPassant;
          s6 = s5\<lparr>moveHistory := moveHistory s5 @ [algebraicNotation]\<rparr>;
          s7 = s6\<lparr>currentPlayer := opponent (currentPlayer s6)\<rparr>
      in s7\<lparr>positionHistory := positionHistory s7 @ [generatePositionKey s7]\<rparr>)"

text \<open>
  A checker for games of plain moves: \<open>quietMove\<close> makes a move that is neither castling
  nor a promotion and asks for one legal reply, a halfmove clock below 100 and no
  threefold repetition, so that the game goes on; \<open>makeMove\<close> then returns \<^verbatim>\<open>true\<close> and
  the engine \<open>quietMove\<close> gives (lemma \<open>quietMove_sound\<close>).
\<close>

type_synonym coords = "int \<times> int \<times> int \<times> int"

definition quietMove :: "engine \<Rightarrow> coords \<Rightarrow> coords \<Rightarrow> engine option" where
  "quietMove s m reply =
     (case m of (fromRow, fromCol, toRow, toCol) \<Rightarrow>
      case reply of (replyRow, replyCol, replyToRow, replyToCol) \<Rightarrow>
        if truthy (pendingPromotion s) \<or> isGameOver s then None
        else case cell (board s) fromRow fromCol of
          None \<Rightarrow> None
        | Some p \<Rightarrow>
            if isCastlingMove (Some p) fromRow fromCol toRow toCol then None
            else if \<not> isValidMove s fromRow fromCol toRow toCol then None
            else if isPawnPromotion (preMove s p fromRow fromCol toRow toCol) fromRow fromCol toRow toCol
            then None
            else (let s' = postMove s p fromRow fromCol toRow toCol
                  in if \<not> isValidMove s' replyRow replyCol replyToRow replyToCol then None
                     else if halfmoveClock s' \<ge> 100 then None
                     else if isThreefoldRepetition s' then None
                     else Some s'))"

fun fastPlay :: "engine \<Rightarrow> (coords \<times> coords) list \<Rightarrow> engine option" where
  "fastPlay s [] = Some s"
| "fastPlay s ((m, reply) # ms) =
     (case quietMove s m reply of Some s' \<Rightarrow> fastPlay s' ms | None \<Rightarrow> None)"

text \<open>The engine a game of plain moves leads to, from the initialised engine.\<close>

definition position :: "(coords \<times> coords) list \<Rightarrow> engine" where
  "position game = the (fastPlay initializeBoard game)"

text \<open>
  Two facts of every reachable engine: the board is an 8 by 8 grid, and the en-passant
  field is \<^verbatim>\<open>'-'\<close> or names a square of rank 3 or rank 6 (row 5 or row 2).
\<close>

definition epTargetOk :: "string \<Rightarrow> bool" where
  "epTargetOk ep = (ep = ''-'' \<or> epRank ep = Some 2 \<or> epRank ep = Some 5)"

definition engineInv :: "engine \<Rightarrow> bool" where
  "engineInv s = (wfBoard (board s) \<and> epTargetOk (fenEnPassant s))"

text \<open>
  A third fact of every reachable engine: each piece on the board carries the glyph of
  its own colour and type (lemma \<open>reachable_boardGlyphs\<close>).
\<close>

definition glyphOk :: "piece option \<Rightarrow> bool" where
  "glyphOk q = (case q of None \<Rightarrow> True | Some p \<Rightarrow> symbol p = glyph (color p) (ptype p))"

definition boardGlyphs :: "board \<Rightarrow> bool" where
  "boardGlyphs b = list_all (list_all glyphOk) b"

text \<open>
  Claim C9 in its own words. A disambiguation hint names the file of the piece that is
  meant, or its rank, or both; a token without one has the empty hint. The pieces a
  token may mean are the pieces of the given type and of the side to move that the hint
  fits and that can legally reach the destination; they are listed in the order of the
  board, rows 0 to 7 and columns 0 to 7 in each. \<open>fileHint\<close> says of a hint that it is
  empty or one of the file letters a to h.
\<close>

definition hintFits :: "string \<Rightarrow> int \<Rightarrow> int \<Rightarrow> bool" where
  "hintFits hint row col =
     (hint = [] \<or> hint = fileOf col \<or> hint = rankOf row \<or> hint = fileOf col @ rankOf row)"

definition legalCandidates :: "engine \<Rightarrow> ptype \<Rightarrow> string \<Rightarrow> int \<Rightarrow> int \<Rightarrow> (int \<times> int) list" where
  "legalCandidates s t hint toRow toCol =
     filter (\<lambda>(row, col).
         (case cell (board s) row col of
            Some p \<Rightarrow> ptype p = t \<and> color p = currentPlayer s
          | None \<Rightarrow> False)
         \<and> hintFits hint row col
         \<and> isValidMove s row col toRow toCol)
       squares"

definition fileHint :: "string \<Rightarrow> bool" where
  "fileHint hint = (hint = [] \<or> (\<exists>col \<in> set [0, 1, 2, 3, 4, 5, 6, 7]. hint = fileOf col))"

subsection \<open>Games and positions\<close>

text \<open>
  A game is a list of moves \<open>(fromRow, fromCol, toRow, toCol)\<close>, each paired with one
  legal reply (the next move of the game where there is one). Each \<open>Facts\<close> predicate
  lists what is read off the engine at the end of its game.
\<close>

definition whitePawn :: piece where
  "whitePawn = \<lparr>symbol = glyph White Pawn, ptype = Pawn, color = White\<rparr>"

definition whiteKing :: piece where
  "whiteKing = \<lparr>symbol = glyph White King, ptype = King, color = White\<rparr>"

definition whiteKnight :: piece where
  "whiteKnight = \<lparr>symbol = glyph White Knight, ptype = Knight, color = White\<rparr>"

text \<open>
  1.e4 a5 2.e5 Ra6 3.Ke2 Rb6 4.Kf3 Rb5 5.Kg4 a4 6.Kg5 d5: the white king on g5, the black
  rook on b5, and between them on the fifth rank only the black pawn that has just come
  to d5 and the white pawn on e5, which may take it en passant on d6.
\<close>

definition pinnedPawnGame :: "(coords \<times> coords) list" where
  "pinnedPawnGame =
     [((6,4,4,4), (1,0,3,0)), ((1,0,3,0), (4,4,3,4)), ((4,4,3,4), (0,0,2,0)), ((0,0,2,0), (7,4,6,4)),
      ((7,4,6,4), (2,0,2,1)), ((2,0,2,1), (6,4,5,5)), ((6,4,5,5), (2,1,3,1)), ((2,1,3,1), (5,5,4,6)),
      ((5,5,4,6), (3,0,4,0)), ((3,0,4,0), (4,6,3,6)), ((4,6,3,6), (1,3,3,3)), ((1,3,3,3), (3,4,2,3))]"

definition pinnedPawnFacts :: "engine \<Rightarrow> bool" where
  "pinnedPawnFacts s =
     (\<not> truthy (pendingPromotion s) \<and> \<not> isGameOver s \<and> currentPlayer s = White
      \<and> fenEnPassant s = ''d6''
      \<and> cell (board s) 3 4 = Some whitePawn
      \<and> cell (board s) 3 3 = newPiece Black Pawn
      \<and> \<not> isInCheck s White
      \<and> isValidMove s 3 4 2 3
      \<and> \<not> isPawnPromotion (preMove s whitePawn 3 4 2 3) 3 4 2 3
      \<and> cell (board (postMove s whitePawn 3 4 2 3)) 3 3 = None
      \<and> isInCheck (postMove s whitePawn 3 4 2 3) White)"

text \<open>
  1.a4 b5 2.axb5 a6 3.bxa6 Nf6 4.a7 h5: the white pawn on a7 can take the knight on b8 and
  promote, right after Black's h-pawn has advanced two squares.
\<close>

definition promotionGame :: "(coords \<times> coords) list" where
  "promotionGame =
     [((6,0,4,0), (1,1,3,1)), ((1,1,3,1), (4,0,3,1)), ((4,0,3,1), (1,0,2,0)), ((1,0,2,0), (3,1,2,0)),
      ((3,1,2,0), (0,6,2,5)), ((0,6,2,5), (2,0,1,0)), ((2,0,1,0), (1,7,3,7)), ((1,7,3,7), (1,0,0,1))]"

definition promotionFacts :: "engine \<Rightarrow> bool" where
  "promotionFacts s =
     (pendingPromotion s = None \<and> \<not> isGameOver s
      \<and> fenEnPassant s = ''h6''
      \<and> castlingRights s = \<lparr>white = allRights, black = allRights\<rparr>
      \<and> cell (board s) 1 0 = Some whitePawn
      \<and> cell (board s) 0 1 = newPiece Black Knight
      \<and> isValidMove s 1 0 0 1)"

text \<open>
  1.e4 e5 2.Nf3 Nc6 3.Bc4 a5: White can castle kingside, right after Black's a-pawn has
  advanced two squares.
\<close>

definition castleGame :: "(coords \<times> coords) list" where
  "castleGame =
     [((6,4,4,4), (1,4,3,4)), ((1,4,3,4), (7,6,5,5)), ((7,6,5,5), (0,1,2,2)), ((0,1,2,2), (7,5,4,2)),
      ((7,5,4,2), (1,0,3,0)), ((1,0,3,0), (6,0,5,0))]"

definition castleFacts :: "engine \<Rightarrow> bool" where
  "castleFacts s =
     (pendingPromotion s = None \<and> \<not> isGameOver s \<and> currentPlayer s = White
      \<and> fenEnPassant s = ''a6'' \<and> halfmoveClock s = 0
      \<and> cell (board s) 7 4 = Some whiteKing
      \<and> cell (board s) 7 7 = newPiece White Rook
      \<and> king (rightsOf s White) \<and> rookKing (rightsOf s White)
      \<and> \<not> isInCheckSimple s White
      \<and> cell (board s) 7 5 = None \<and> cell (board s) 7 6 = None
      \<and> \<not> isSquareUnderAttackSimple s 7 5 White \<and> \<not> isSquareUnderAttackSimple s 7 6 White
      \<and> canCastle s White Kingside)"

text \<open>
  1.Nf3 Nf6 2.g3 Ne4 3.Bg2 Nxg3 4.a3 Nxh1 5.Bxh1 a6 6.Bg2 b6: the white rook has been
  taken on h1, the square is empty again, and the white king has not moved.
\<close>

definition capturedRookGame :: "(coords \<times> coords) list" where
  "capturedRookGame =
     [((7,6,5,5), (0,6,2,5)), ((0,6,2,5), (6,6,5,6)), ((6,6,5,6), (2,5,4,4)), ((2,5,4,4), (7,5,6,6)),
      ((7,5,6,6), (4,4,5,6)), ((4,4,5,6), (6,0,5,0)), ((6,0,5,0), (5,6,7,7)), ((5,6,7,7), (6,6,7,7)),
      ((6,6,7,7), (1,0,2,0)), ((1,0,2,0), (7,7,6,6)), ((7,7,6,6), (1,1,2,1)), ((1,1,2,1), (5,0,4,0))]"

definition capturedRookFacts :: "engine \<Rightarrow> bool" where
  "capturedRookFacts s =
     (\<not> truthy (pendingPromotion s) \<and> \<not> isGameOver s \<and> currentPlayer s = White
      \<and> moveHistory s = [''Nf3'', ''Nf6'', ''g3'', ''Ne4'', ''Bg2'', ''Nxg3'', ''a3'', ''Nxh1'',
                          ''Bxh1'', ''a6'', ''Bg2'', ''b6'']
      \<and> cell (board s) 7 4 = Some whiteKing
      \<and> cell (board s) 7 7 = None
      \<and> rookKing (rightsOf s White)
      \<and> (case handleCastling s Kingside of
           (ok, s') \<Rightarrow>
             ok \<and> currentPlayer s' = Black
             \<and> cell (board s') 7 4 = None \<and> cell (board s') 7 5 = None
             \<and> cell (board s') 7 6 = Some whiteKing \<and> cell (board s') 7 7 = None))"

text \<open>1.d4 d5 2.Nf3 Nf6: the white knights on f3 and b1 can both go to d2.\<close>

definition knightsGame :: "(coords \<times> coords) list" where
  "knightsGame =
     [((6,3,4,3), (1,3,3,3)), ((1,3,3,3), (7,6,5,5)), ((7,6,5,5), (0,6,2,5)), ((0,6,2,5), (5,5,6,3))]"

definition knightsFacts :: "engine \<Rightarrow> bool" where
  "knightsFacts s =
     (\<not> truthy (pendingPromotion s) \<and> \<not> isGameOver s \<and> currentPlayer s = White
      \<and> cell (board s) 5 5 = Some whiteKnight \<and> cell (board s) 7 1 = Some whiteKnight
      \<and> cell (board s) 6 3 = None
      \<and> isValidMove s 5 5 6 3 \<and> isValidMove s 7 1 6 3
      \<and> legalCandidates s Knight [] 6 3 = [(5, 5), (7, 1)]
      \<and> legalCandidates s Knight ''b'' 6 3 = [(7, 1)]
      \<and> legalCandidates s Knight [] 4 0 = []
      \<and> findPieceForMove s CHR ''n'' [] 6 3 = Some (5, 5)
      \<and> \<not> isPawnPromotion (preMove s whiteKnight 5 5 6 3) 5 5 6 3
      \<and> cell (board (postMove s whiteKnight 5 5 6 3)) 6 3 = Some whiteKnight
      \<and> cell (board (postMove s whiteKnight 5 5 6 3)) 5 5 = None
      \<and> cell (board (postMove s whiteKnight 5 5 6 3)) 7 1 = Some whiteKnight)"

text \<open>
  1.e4 Nf6 2.Ke2 Ng8 3.Ke1 Nf6 4.Ne2 Ng8 and 1.e4 Nf6 2.Ke2 Ng8 3.Nf3 Nf6 4.Ne1 Ng8: the
  same position but for the white king and a white knight, which have changed places
  on e1 and e2.
\<close>

definition kingHomeGame :: "(coords \<times> coords) list" where
  "kingHomeGame =
     [((6,4,4,4), (0,6,2,5)), ((0,6,2,5), (7,4,6,4)), ((7,4,6,4), (2,5,0,6)), ((2,5,0,6), (6,4,7,4)),
      ((6,4,7,4), (0,6,2,5)), ((0,6,2,5), (7,6,6,4)), ((7,6,6,4), (2,5,0,6)), ((2,5,0,6), (6,0,5,0))]"

definition knightHomeGame :: "(coords \<times> coords) list" where
  "knightHomeGame =
     [((6,4,4,4), (0,6,2,5)), ((0,6,2,5), (7,4,6,4)), ((7,4,6,4), (2,5,0,6)), ((2,5,0,6), (7,6,5,5)),
      ((7,6,5,5), (0,6,2,5)), ((0,6,2,5), (5,5,7,4)), ((5,5,7,4), (2,5,0,6)), ((2,5,0,6), (6,0,5,0))]"

definition kingHomeFacts :: "engine \<Rightarrow> bool" where
  "kingHomeFacts s =
     (cell (board s) 7 4 = newPiece White King \<and> cell (board s) 6 4 = newPiece White Knight
      \<and> generatePositionKey s =
          ''brbkbbbqbkbbbkbrbpbpbpbpbpbpbpbp----------------------------------------wp----------------------wpwpwpwpwkwpwpwpwrwkwbwqwkwb--wrwkq-'')"

definition knightHomeFacts :: "engine \<Rightarrow> bool" where
  "knightHomeFacts s =
     (cell (board s) 7 4 = newPiece White Knight \<and> cell (board s) 6 4 = newPiece White King
      \<and> generatePositionKey s =
          ''brbkbbbqbkbbbkbrbpbpbpbpbpbpbpbp----------------------------------------wp----------------------wpwpwpwpwkwpwpwpwrwkwbwqwkwb--wrwkq-'')"

text \<open>
  A position set up by hand. White: king e1, rook h1, queen e6, pawn h6; Black: king f8;
  White to move, with the right to castle. Castling kingside is checkmate.
\<close>

definition castleMateBoard :: board where
  "castleMateBoard =
     [[None, None, None, None, None, newPiece Black King, None, None],
      replicate 8 None,
      [None, None, None, None, newPiece White Queen, None, None, newPiece White Pawn],
      replicate 8 None,
      replicate 8 None,
      replicate 8 None,
      replicate 8 None,
      [None, None, None, None, newPiece White King, None, None, newPiece White Rook]]"

definition castleMate :: engine where
  "castleMate =
     initializeBoard
       \<lparr>board := castleMateBoard,
        castlingRights := \<lparr>white = allRights,
                           black = \<lparr>king = False, rookQueen = False, rookKing = False\<rparr>\<rparr>,
        fenCastling := \<lparr>fenK = True, fenQ = True, fenk = False, fenq = False\<rparr>\<rparr>"

section \<open>Lemmas on the board and on \<open>makeMove\<close>\<close>

lemma rowDefined_setCell [simp]: "rowDefined (setCell b r c v) r' = rowDefined b r'"
  by (simp add: rowDefined_def setCell_def)

lemma rowDefined_nat: "rowDefined b r \<Longrightarrow> nat r < length b"
  by (simp add: rowDefined_def nat_less_iff)

lemma cell_setCell_other:
  assumes "r' \<noteq> r \<or> c' \<noteq> c"
  shows "cell (setCell b r c v) r' c' = cell b r' c'"
proof (cases "rowDefined b r \<and> 0 \<le> c \<and> c < int (length (b ! nat r))")
  case False
  then have "setCell b r c v = b" by (auto simp: setCell_def)
  then show ?thesis by simp
next
  case True
  then have upd: "setCell b r c v = b[nat r := (b ! nat r)[nat c := v]]"
    by (simp add: setCell_def)
  from True have r: "nat r < length b" and r0: "0 \<le> r" and c0: "0 \<le> c"
    by (simp_all add: rowDefined_nat) (simp add: rowDefined_def)
  show ?thesis
  proof (cases "rowDefined b r'")
    case False
    then show ?thesis by (simp add: cell_def)
  next
    case rd: True
    then have r': "nat r' < length b" and r'0: "0 \<le> r'"
      by (simp_all add: rowDefined_nat) (simp add: rowDefined_def)
    show ?thesis
    proof (cases "r' = r")
      case False
      with r0 r'0 have "nat r' \<noteq> nat r" by simp
      then show ?thesis using rd by (simp add: cell_def upd rowDefined_def)
    next
      case same: True
      with assms have ne: "c' \<noteq> c" by simp
      show ?thesis
      proof (cases "0 \<le> c'")
        case False
        then show ?thesis by (simp add: cell_def)
      next
        case True
        with ne c0 have "nat c' \<noteq> nat c" by simp
        then show ?thesis using rd r same by (simp add: cell_def upd rowDefined_def)
      qed
    qed
  qed
qed

lemma cell_setCell_same:
  assumes "rowDefined b r" "0 \<le> c" "c < int (length (b ! nat r))"
  shows "cell (setCell b r c v) r c = v"
proof -
  from assms have "nat r < length b" "nat c < length (b ! nat r)"
    by (simp_all add: rowDefined_nat nat_less_iff)
  with assms show ?thesis by (simp add: cell_def setCell_def rowDefined_def)
qed

lemma wfBoard_setCell: "wfBoard b \<Longrightarrow> wfBoard (setCell b r c v)"
  by (auto simp: wfBoard_def setCell_def list_all_length nth_list_update rowDefined_def)

lemma wfBoard_inRange:
  "wfBoard b \<Longrightarrow> 0 \<le> r \<Longrightarrow> r \<le> 7 \<Longrightarrow> 0 \<le> c \<Longrightarrow> c \<le> 7 \<Longrightarrow>
   rowDefined b r \<and> c < int (length (b ! nat r))"
  by (simp add: wfBoard_def rowDefined_def list_all_length)

lemma cell_setCell_wf:
  assumes "wfBoard b" "0 \<le> r" "r \<le> 7" "0 \<le> c" "c \<le> 7"
  shows "cell (setCell b r c v) r' c' = (if r' = r \<and> c' = c then v else cell b r' c')"
  using wfBoard_inRange [OF assms] assms(4)
  by (simp add: cell_setCell_same cell_setCell_other)



lemma cell_Some_rowDefined: "cell b r c = Some p \<Longrightarrow> rowDefined b r"
  by (simp add: cell_def split: if_splits)

lemma handleEnPassant_saved:
  "fst (handleEnPassant (updateCastlingRights (saveGameState s) p fromCol) p fromRow fromCol toRow toCol)
     = fst (handleEnPassant s p fromRow fromCol toRow toCol)"
  by (simp add: handleEnPassant_def updateCastlingRights_def saveGameState_def Let_def)

lemma makeMove_castling:
  assumes "\<not> truthy (pendingPromotion s)" "\<not> isGameOver s"
    and "cell (board s) fromRow fromCol = Some p"
    and "isCastlingMove (Some p) fromRow fromCol toRow toCol"
  shows "makeMove s fromRow fromCol toRow toCol =
           (if canCastle s (color p) (sideOf toCol)
            then castlingResult (handleCastling s (sideOf toCol))
            else Inr (Rejected, s))"
  using assms cell_Some_rowDefined [OF assms(3)] by (simp add: makeMove_def)

lemma makeMove_invalid:
  assumes "\<not> truthy (pendingPromotion s)" "\<not> isGameOver s"
    and "cell (board s) fromRow fromCol = Some p"
    and "\<not> isCastlingMove (Some p) fromRow fromCol toRow toCol"
    and "\<not> isValidMove s fromRow fromCol toRow toCol"
  shows "makeMove s fromRow fromCol toRow toCol = Inr (Rejected, s)"
  using assms cell_Some_rowDefined [OF assms(3)] by (simp add: makeMove_def)

lemma makeMove_promotion:
  assumes "\<not> truthy (pendingPromotion s)" "\<not> isGameOver s"
    and "cell (board s) fromRow fromCol = Some p"
    and "\<not> isCastlingMove (Some p) fromRow fromCol toRow toCol"
    and "isValidMove s fromRow fromCol toRow toCol"
    and "isPawnPromotion (preMove s p fromRow fromCol toRow toCol) fromRow fromCol toRow toCol"
  shows "makeMove s fromRow fromCol toRow toCol =
           Inr (Promotion, (preMove s p fromRow fromCol toRow toCol)
                  \<lparr>pendingPromotion := Some \<lparr>pFromRow = fromRow, pFromCol = fromCol,
                      pToRow = toRow, pToCol = toCol, pColor = color p\<rparr>\<rparr>)"
  using assms cell_Some_rowDefined [OF assms(3)]
  by (simp add: makeMove_def preMove_def Let_def)

lemma makeMove_applied:
  assumes "\<not> truthy (pendingPromotion s)" "\<not> isGameOver s"
    and "cell (board s) fromRow fromCol = Some p"
    and "\<not> isCastlingMove (Some p) fromRow fromCol toRow toCol"
    and "isValidMove s fromRow fromCol toRow toCol"
    and "\<not> isPawnPromotion (preMove s p fromRow fromCol toRow toCol) fromRow fromCol toRow toCol"
  shows "makeMove s fromRow fromCol toRow toCol =
           Inr (Applied, snd (checkGameEndConditions (postMove s p fromRow fromCol toRow toCol)))"
  using assms cell_Some_rowDefined [OF assms(3)]
  by (simp add: makeMove_def preMove_def postMove_def Let_def)

lemma handleCastling_refused: "\<not> canCastle s (currentPlayer s) sd \<Longrightarrow> handleCastling s sd = (False, s)"
  by (simp add: handleCastling_def Let_def)

lemma handleCastling_fst: "fst (handleCastling s sd) = canCastle s (currentPlayer s) sd"
  by (simp add: handleCastling_def Let_def)

lemma makeMove_rejected_unchanged:
  assumes "makeMove s fromRow fromCol toRow toCol = Inr (Rejected, s')"
  shows "s' = s"
proof (cases "truthy (pendingPromotion s) \<or> isGameOver s")
  case True
  with assms show ?thesis by (simp add: makeMove_def)
next
  case idle: False
  show ?thesis
  proof (cases "cell (board s) fromRow fromCol")
    case None
    with assms idle show ?thesis by (simp add: makeMove_def split: if_splits)
  next
    case (Some p)
    show ?thesis
    proof (cases "isCastlingMove (Some p) fromRow fromCol toRow toCol")
      case True
      show ?thesis
      proof (cases "canCastle s (color p) (sideOf toCol) \<and> canCastle s (currentPlayer s) (sideOf toCol)")
        case True
        then have "fst (handleCastling s (sideOf toCol))" by (simp add: handleCastling_fst)
        with assms idle Some \<open>isCastlingMove (Some p) fromRow fromCol toRow toCol\<close> True
        show ?thesis
          by (simp add: makeMove_castling castlingResult_def split: prod.splits)
      next
        case False
        with assms idle Some \<open>isCastlingMove (Some p) fromRow fromCol toRow toCol\<close>
        show ?thesis
          by (auto simp: makeMove_castling castlingResult_def handleCastling_refused split: if_splits)
      qed
    next
      case nc: False
      show ?thesis
      proof (cases "isValidMove s fromRow fromCol toRow toCol")
        case False
        with assms idle Some nc show ?thesis by (simp add: makeMove_invalid)
      next
        case True
        with assms idle Some nc show ?thesis
          by (cases "isPawnPromotion (preMove s p fromRow fromCol toRow toCol) fromRow fromCol toRow toCol")
            (simp_all add: makeMove_promotion makeMove_applied)
      qed
    qed
  qed
qed

lemma in_set_nonempty: "x \<in> set xs \<Longrightarrow> xs \<noteq> []"
  by auto

lemma in_eight: "0 \<le> (r::int) \<Longrightarrow> r \<le> 7 \<Longrightarrow> r \<in> set [0, 1, 2, 3, 4, 5, 6, 7]"
  by simp arith

lemma in_grid: "(r, c) \<in> set (concat (map (\<lambda>r. map (\<lambda>c. (r, c)) cs) rs)) \<longleftrightarrow> r \<in> set rs \<and> c \<in> set cs"
  by auto

lemma in_squares:
  assumes "0 \<le> r" "r \<le> 7" "0 \<le> c" "c \<le> 7"
  shows "(r, c) \<in> set squares"
  unfolding squares_def in_grid using assms by (intro conjI in_eight)

lemma isValidMoveOn_D:
  assumes "isValidMoveOn b player ep fromRow fromCol toRow toCol"
  shows "0 \<le> fromRow \<and> fromRow \<le> 7 \<and> 0 \<le> fromCol \<and> fromCol \<le> 7
       \<and> 0 \<le> toRow \<and> toRow \<le> 7 \<and> 0 \<le> toCol \<and> toCol \<le> 7
       \<and> (\<exists>p. cell b fromRow fromCol = Some p \<and> color p = player
              \<and> isValidPieceMove b ep p fromRow fromCol toRow toCol
              \<and> \<not> isInCheckOnBoard ep player
                    (setCell (setCell b toRow toCol (Some p)) fromRow fromCol None))"
  using assms
  by (auto simp: isValidMoveOn_def Let_def split: if_splits option.splits)

lemma getAllLegalMoves_nonempty:
  assumes "isValidMove s fromRow fromCol toRow toCol"
  shows "getAllLegalMoves s \<noteq> []"
proof -
  define movesFrom where "movesFrom = (\<lambda>(row, col).
         case cell (board s) row col of
           Some p \<Rightarrow>
             (if color p = currentPlayer s
              then map (\<lambda>dest. ((row, col), dest))
                     (filter (\<lambda>(toRow, toCol). isValidMove s row col toRow toCol) squares)
              else [])
         | None \<Rightarrow> [])"
  from isValidMoveOn_D [OF assms [unfolded isValidMove_def]]
  obtain p where src: "(fromRow, fromCol) \<in> set squares" and dst: "(toRow, toCol) \<in> set squares"
    and p: "cell (board s) fromRow fromCol = Some p" "color p = currentPlayer s"
    by (auto simp: in_squares)
  from dst assms have "(toRow, toCol) \<in> set (filter (\<lambda>(toRow, toCol). isValidMove s fromRow fromCol toRow toCol) squares)"
    by simp
  with p have "((fromRow, fromCol), (toRow, toCol)) \<in> set (movesFrom (fromRow, fromCol))"
    by (simp add: movesFrom_def del: set_filter)
  with src have "((fromRow, fromCol), (toRow, toCol)) \<in> set (concat (map movesFrom squares))"
    unfolding set_concat set_map by blast
  then have "concat (map movesFrom squares) \<noteq> []" by (rule in_set_nonempty)
  then show ?thesis
    by (simp add: getAllLegalMoves_def getAllLegalMovesForColor_def movesFrom_def)
qed

lemma checkGameEndConditions_continues:
  assumes "getAllLegalMoves s \<noteq> []" "halfmoveClock s < 100" "\<not> isThreefoldRepetition s"
  shows "checkGameEndConditions s = (None, s)"
  using assms by (simp add: checkGameEndConditions_def)

lemma quietMove_sound:
  assumes "quietMove s (fromRow, fromCol, toRow, toCol) reply = Some s'"
  shows "makeMove s fromRow fromCol toRow toCol = Inr (Applied, s')"
proof -
  obtain a b c d where reply: "reply = (a, b, c, d)" by (cases reply) auto
  from assms obtain p where idle: "\<not> truthy (pendingPromotion s)" "\<not> isGameOver s"
    and p: "cell (board s) fromRow fromCol = Some p"
    and nc: "\<not> isCastlingMove (Some p) fromRow fromCol toRow toCol"
    and valid: "isValidMove s fromRow fromCol toRow toCol"
    and np: "\<not> isPawnPromotion (preMove s p fromRow fromCol toRow toCol) fromRow fromCol toRow toCol"
    and s': "s' = postMove s p fromRow fromCol toRow toCol"
    and more: "isValidMove s' a b c d" "halfmoveClock s' < 100" "\<not> isThreefoldRepetition s'"
    unfolding quietMove_def reply
    by (auto simp: Let_def split: if_splits option.splits)
  from more have "checkGameEndConditions s' = (None, s')"
    by (intro checkGameEndConditions_continues getAllLegalMoves_nonempty)
  with makeMove_applied [OF idle p nc valid np] s' show ?thesis by simp
qed

lemma fastPlay_reachable:
  assumes "reachable s" "fastPlay s ms = Some s'"
  shows "reachable s'"
  using assms
proof (induction ms arbitrary: s)
  case Nil
  then show ?case by simp
next
  case (Cons x ms)
  obtain m reply where x: "x = (m, reply)" by (cases x) auto
  obtain fromRow fromCol toRow toCol where m: "m = (fromRow, fromCol, toRow, toCol)"
    by (cases m) auto
  from Cons.prems x obtain t where t: "quietMove s m reply = Some t" "fastPlay t ms = Some s'"
    by (auto split: option.splits)
  from t(1) have "makeMove s fromRow fromCol toRow toCol = Inr (Applied, t)"
    unfolding m by (rule quietMove_sound)
  with Cons.prems(1) have "reachable t" by (rule reachable.move)
  from this t(2) show ?case by (rule Cons.IH)
qed

subsection \<open>What each step of a move leaves alone\<close>

lemma checkGameEndConditions_frame:
  "board (snd (checkGameEndConditions s)) = board s"
  "fenEnPassant (snd (checkGameEndConditions s)) = fenEnPassant s"
  "currentPlayer (snd (checkGameEndConditions s)) = currentPlayer s"
  "halfmoveClock (snd (checkGameEndConditions s)) = halfmoveClock s"
  "castlingRights (snd (checkGameEndConditions s)) = castlingRights s"
  "fenCastling (snd (checkGameEndConditions s)) = fenCastling s"
  "pendingPromotion (snd (checkGameEndConditions s)) = pendingPromotion s"
  "moveHistory (snd (checkGameEndConditions s)) = moveHistory s"
  "positionHistory (snd (checkGameEndConditions s)) = positionHistory s"
  by (simp_all add: checkGameEndConditions_def)

lemma handleCastling_frame:
  "fenEnPassant (snd (handleCastling s sd)) = fenEnPassant s"
  "halfmoveClock (snd (handleCastling s sd)) = halfmoveClock s"
  "isGameOver (snd (handleCastling s sd)) = isGameOver s"
  "gameWinner (snd (handleCastling s sd)) = gameWinner s"
  "positionHistory (snd (handleCastling s sd)) = positionHistory s"
  "pendingPromotion (snd (handleCastling s sd)) = pendingPromotion s"
  by (simp_all add: handleCastling_def Let_def revokeAll_def)

lemma wfBoard_handleCastling:
  "wfBoard (board s) \<Longrightarrow> wfBoard (board (snd (handleCastling s sd)))"
  by (simp add: handleCastling_def Let_def revokeAll_def wfBoard_setCell)

lemma handleEnPassant_frame:
  "fenEnPassant (snd (handleEnPassant s p fromRow fromCol toRow toCol)) = fenEnPassant s"
  "halfmoveClock (snd (handleEnPassant s p fromRow fromCol toRow toCol)) = halfmoveClock s"
  "castlingRights (snd (handleEnPassant s p fromRow fromCol toRow toCol)) = castlingRights s"
  "fenCastling (snd (handleEnPassant s p fromRow fromCol toRow toCol)) = fenCastling s"
  "pendingPromotion (snd (handleEnPassant s p fromRow fromCol toRow toCol)) = pendingPromotion s"
  by (simp_all add: handleEnPassant_def Let_def)

lemma handleEnPassant_board:
  "board (snd (handleEnPassant s p fromRow fromCol toRow toCol)) =
     (if fst (handleEnPassant s p fromRow fromCol toRow toCol)
      then setCell (board s) (if color p = White then toRow + 1 else toRow - 1) toCol None
      else board s)"
  by (simp add: handleEnPassant_def Let_def)

lemma handleEnPassant_fires:
  "fst (handleEnPassant s p fromRow fromCol toRow toCol) =
     (ptype p = Pawn \<and> cell (board s) toRow toCol = None \<and> \<bar>toCol - fromCol\<bar> = 1
      \<and> isEpSquare (fenEnPassant s) toRow toCol)"
  by (simp add: handleEnPassant_def Let_def)

lemma handleEnPassant_from:
  "cell (board (snd (handleEnPassant s p fromRow fromCol toRow toCol))) fromRow fromCol
     = cell (board s) fromRow fromCol"
proof (cases "fst (handleEnPassant s p fromRow fromCol toRow toCol)")
  case True
  then have "fromCol \<noteq> toCol" by (auto simp: handleEnPassant_fires)
  with True show ?thesis by (simp add: handleEnPassant_board cell_setCell_other)
next
  case False
  then show ?thesis by (simp add: handleEnPassant_board)
qed

lemma updateCastlingRights_frame:
  "board (updateCastlingRights s p fromCol) = board s"
  "fenEnPassant (updateCastlingRights s p fromCol) = fenEnPassant s"
  "halfmoveClock (updateCastlingRights s p fromCol) = halfmoveClock s"
  "pendingPromotion (updateCastlingRights s p fromCol) = pendingPromotion s"
  by (simp_all add: updateCastlingRights_def Let_def)

lemma updateCastlingRights_pawn:
  "ptype p = Pawn \<Longrightarrow> updateCastlingRights s p fromCol = s"
  by (simp add: updateCastlingRights_def Let_def)

lemma saveGameState_frame:
  "board (saveGameState s) = board s"
  "fenEnPassant (saveGameState s) = fenEnPassant s"
  "halfmoveClock (saveGameState s) = halfmoveClock s"
  "castlingRights (saveGameState s) = castlingRights s"
  "fenCastling (saveGameState s) = fenCastling s"
  "pendingPromotion (saveGameState s) = pendingPromotion s"
  by (simp_all add: saveGameState_def)

lemma updateEnPassantTarget_frame:
  "board (updateEnPassantTarget s p fromRow fromCol toRow toCol) = board s"
  "halfmoveClock (updateEnPassantTarget s p fromRow fromCol toRow toCol) = halfmoveClock s"
  "castlingRights (updateEnPassantTarget s p fromRow fromCol toRow toCol) = castlingRights s"
  "fenCastling (updateEnPassantTarget s p fromRow fromCol toRow toCol) = fenCastling s"
  "pendingPromotion (updateEnPassantTarget s p fromRow fromCol toRow toCol) = pendingPromotion s"
  by (simp_all add: updateEnPassantTarget_def Let_def)

lemma updateEnPassantTarget_value:
  "fenEnPassant (updateEnPassantTarget s p fromRow fromCol toRow toCol) =
     (if ptype p = Pawn \<and> \<bar>toRow - fromRow\<bar> = 2
      then fromCharCode (97 + fromCol) # showInt (8 - (fromRow + toRow) div 2)
      else ''-'')"
  by (simp add: updateEnPassantTarget_def Let_def)

lemmas step_frames =
  saveGameState_frame updateCastlingRights_frame handleEnPassant_frame
  updateEnPassantTarget_frame

lemma handleEnPassant_prepared:
  "fst (handleEnPassant (updateCastlingRights (saveGameState s) p fromCol) p fromRow fromCol toRow toCol)
     = fst (handleEnPassant s p fromRow fromCol toRow toCol)"
  "board (snd (handleEnPassant (updateCastlingRights (saveGameState s) p fromCol) p fromRow fromCol toRow toCol))
     = board (snd (handleEnPassant s p fromRow fromCol toRow toCol))"
  by (simp_all add: handleEnPassant_board handleEnPassant_fires step_frames)

lemma preMove_board:
  "board (preMove s p fromRow fromCol toRow toCol)
     = board (snd (handleEnPassant s p fromRow fromCol toRow toCol))"
  by (simp add: preMove_def Let_def step_frames handleEnPassant_prepared)

lemma preMove_fenEnPassant:
  "fenEnPassant (preMove s p fromRow fromCol toRow toCol)
     = fenEnPassant (updateEnPassantTarget s p fromRow fromCol toRow toCol)"
  by (simp add: preMove_def Let_def updateEnPassantTarget_value)

lemma preMove_pendingPromotion:
  "pendingPromotion (preMove s p fromRow fromCol toRow toCol) = pendingPromotion s"
  by (simp add: preMove_def Let_def step_frames)

lemma preMove_pawn:
  assumes "ptype p = Pawn"
  shows "halfmoveClock (preMove s p fromRow fromCol toRow toCol) = 0"
    and "castlingRights (preMove s p fromRow fromCol toRow toCol) = castlingRights s"
    and "fenCastling (preMove s p fromRow fromCol toRow toCol) = fenCastling s"
  using assms
  by (simp_all add: preMove_def Let_def step_frames updateCastlingRights_pawn)

lemma postMove_via_preMove:
  "board (postMove s p fromRow fromCol toRow toCol)
     = setCell (setCell (board (preMove s p fromRow fromCol toRow toCol)) toRow toCol (Some p))
         fromRow fromCol None"
  "fenEnPassant (postMove s p fromRow fromCol toRow toCol)
     = fenEnPassant (preMove s p fromRow fromCol toRow toCol)"
  "halfmoveClock (postMove s p fromRow fromCol toRow toCol)
     = halfmoveClock (preMove s p fromRow fromCol toRow toCol)"
  "pendingPromotion (postMove s p fromRow fromCol toRow toCol)
     = pendingPromotion (preMove s p fromRow fromCol toRow toCol)"
  by (simp_all add: postMove_def preMove_def Let_def)

lemma postMove_board:
  "board (postMove s p fromRow fromCol toRow toCol)
     = setCell (setCell (board (snd (handleEnPassant s p fromRow fromCol toRow toCol)))
         toRow toCol (Some p)) fromRow fromCol None"
  by (simp add: postMove_via_preMove preMove_board)

lemma postMove_fenEnPassant:
  "fenEnPassant (postMove s p fromRow fromCol toRow toCol)
     = fenEnPassant (updateEnPassantTarget s p fromRow fromCol toRow toCol)"
  by (simp add: postMove_via_preMove preMove_fenEnPassant)

lemma preMove_from:
  "cell (board (preMove s p fromRow fromCol toRow toCol)) fromRow fromCol
     = cell (board s) fromRow fromCol"
  by (simp add: preMove_board handleEnPassant_from)

lemma isInCheck_after_end_check:
  "isInCheck (snd (checkGameEndConditions s)) c = isInCheck s c"
  by (simp add: isInCheck_def checkGameEndConditions_frame)

subsection \<open>The outcomes of \<open>makeMove\<close>\<close>

lemma castlingResult_cases:
  "castlingResult (handleCastling s sd) =
     (if canCastle s (currentPlayer s) sd then Inr (Applied, snd (handleCastling s sd))
      else Inr (Rejected, s))"
  by (cases "handleCastling s sd")
     (use handleCastling_fst [of s sd] handleCastling_refused [of s sd] in
       \<open>auto simp: castlingResult_def\<close>)

lemma makeMove_cases:
  assumes "makeMove s fromRow fromCol toRow toCol = Inr (r, s')"
  obtains
    (rejected) "r = Rejected" "s' = s"
  | (castled) p where "r = Applied" "cell (board s) fromRow fromCol = Some p"
      "isCastlingMove (Some p) fromRow fromCol toRow toCol"
      "canCastle s (color p) (sideOf toCol)" "canCastle s (currentPlayer s) (sideOf toCol)"
      "s' = snd (handleCastling s (sideOf toCol))"
      "\<not> truthy (pendingPromotion s)" "\<not> isGameOver s"
  | (promotion) p where "r = Promotion" "cell (board s) fromRow fromCol = Some p"
      "\<not> isCastlingMove (Some p) fromRow fromCol toRow toCol"
      "isValidMove s fromRow fromCol toRow toCol"
      "isPawnPromotion (preMove s p fromRow fromCol toRow toCol) fromRow fromCol toRow toCol"
      "s' = (preMove s p fromRow fromCol toRow toCol)
              \<lparr>pendingPromotion := Some \<lparr>pFromRow = fromRow, pFromCol = fromCol,
                  pToRow = toRow, pToCol = toCol, pColor = color p\<rparr>\<rparr>"
      "\<not> truthy (pendingPromotion s)" "\<not> isGameOver s"
  | (applied) p where "r = Applied" "cell (board s) fromRow fromCol = Some p"
      "\<not> isCastlingMove (Some p) fromRow fromCol toRow toCol"
      "isValidMove s fromRow fromCol toRow toCol"
      "\<not> isPawnPromotion (preMove s p fromRow fromCol toRow toCol) fromRow fromCol toRow toCol"
      "s' = snd (checkGameEndConditions (postMove s p fromRow fromCol toRow toCol))"
      "\<not> truthy (pendingPromotion s)" "\<not> isGameOver s"
proof (cases "truthy (pendingPromotion s) \<or> isGameOver s")
  case True
  with assms have "r = Rejected" "s' = s" by (simp_all add: makeMove_def)
  then show ?thesis by (rule rejected)
next
  case idle: False
  then have idle': "\<not> truthy (pendingPromotion s)" "\<not> isGameOver s" by simp_all
  show ?thesis
  proof (cases "cell (board s) fromRow fromCol")
    case None
    with assms idle have "r = Rejected" "s' = s" by (simp_all add: makeMove_def split: if_splits)
    then show ?thesis by (rule rejected)
  next
    case (Some p)
    show ?thesis
    proof (cases "isCastlingMove (Some p) fromRow fromCol toRow toCol")
      case True
      note mm = makeMove_castling [OF idle' Some True, unfolded castlingResult_cases]
      show ?thesis
      proof (cases "canCastle s (color p) (sideOf toCol) \<and> canCastle s (currentPlayer s) (sideOf toCol)")
        case both: True
        with assms mm have "r = Applied" "s' = snd (handleCastling s (sideOf toCol))" by simp_all
        with Some True both idle' show ?thesis by (intro castled [of p]) simp_all
      next
        case False
        with assms mm have "r = Rejected" "s' = s" by (auto split: if_splits)
        then show ?thesis by (rule rejected)
      qed
    next
      case nc: False
      show ?thesis
      proof (cases "isValidMove s fromRow fromCol toRow toCol")
        case False
        with assms makeMove_invalid [OF idle' Some nc] have "r = Rejected" "s' = s" by simp_all
        then show ?thesis by (rule rejected)
      next
        case valid: True
        show ?thesis
        proof (cases "isPawnPromotion (preMove s p fromRow fromCol toRow toCol) fromRow fromCol toRow toCol")
          case True
          from assms makeMove_promotion [OF idle' Some nc valid True]
          have "r = Promotion"
            "s' = (preMove s p fromRow fromCol toRow toCol)
              \<lparr>pendingPromotion := Some \<lparr>pFromRow = fromRow, pFromCol = fromCol,
                  pToRow = toRow, pToCol = toCol, pColor = color p\<rparr>\<rparr>" by simp_all
          with Some nc valid True idle' show ?thesis by (intro promotion [of p]) simp_all
        next
          case False
          from assms makeMove_applied [OF idle' Some nc valid False]
          have "r = Applied"
            "s' = snd (checkGameEndConditions (postMove s p fromRow fromCol toRow toCol))"
            by simp_all
          with Some nc valid False idle' show ?thesis by (intro applied [of p]) simp_all
        qed
      qed
    qed
  qed
qed

lemma pending_rejects:
  "pendingPromotion s = Some pp \<Longrightarrow> makeMove s a b c d = Inr (Rejected, s)"
  by (simp add: makeMove_def truthy_def)

lemma pawn_not_castling: "ptype p = Pawn \<Longrightarrow> \<not> isCastlingMove (Some p) fromRow fromCol toRow toCol"
  by (simp add: isCastlingMove_def)

subsection \<open>Legal pawn moves and the en-passant field\<close>

lemma isValidMove_D:
  assumes "isValidMove s fromRow fromCol toRow toCol"
  obtains p where "cell (board s) fromRow fromCol = Some p" "color p = currentPlayer s"
    "isValidPieceMove (board s) (fenEnPassant s) p fromRow fromCol toRow toCol"
    "0 \<le> fromRow" "fromRow \<le> 7" "0 \<le> fromCol" "fromCol \<le> 7"
    "0 \<le> toRow" "toRow \<le> 7" "0 \<le> toCol" "toCol \<le> 7"
  using isValidMoveOn_D [OF assms [unfolded isValidMove_def]] by blast

lemma isValidPawnMove_rows:
  assumes "isValidPawnMove b ep p fromRow fromCol toRow toCol"
  shows "(color p = White \<and> (toRow = fromRow - 1 \<or> (fromRow = 6 \<and> toRow = 4)))
       \<or> (color p \<noteq> White \<and> (toRow = fromRow + 1 \<or> (fromRow = 1 \<and> toRow = 3)))"
  using assms
  by (cases "color p = White") (auto simp: isValidPawnMove_def Let_def split: if_splits)

lemma isValidMove_pawn_rows:
  assumes "isValidMove s fromRow fromCol toRow toCol"
    and "cell (board s) fromRow fromCol = Some p" "ptype p = Pawn"
  shows "(color p = White \<and> (toRow = fromRow - 1 \<or> (fromRow = 6 \<and> toRow = 4)))
       \<or> (color p \<noteq> White \<and> (toRow = fromRow + 1 \<or> (fromRow = 1 \<and> toRow = 3)))"
proof -
  from assms(1) obtain q where "cell (board s) fromRow fromCol = Some q"
    "isValidPieceMove (board s) (fenEnPassant s) q fromRow fromCol toRow toCol"
    by (rule isValidMove_D)
  with assms(2,3) have "isValidPawnMove (board s) (fenEnPassant s) p fromRow fromCol toRow toCol"
    by (simp add: isValidPieceMove_def)
  then show ?thesis by (rule isValidPawnMove_rows)
qed

lemma showInt_3: "showInt 3 = ''3''"
  by code_simp

lemma showInt_6: "showInt 6 = ''6''"
  by code_simp

lemma epRank_3: "epRank (c # ''3'') = Some 5"
  by (simp add: epRank_def)

lemma epRank_6: "epRank (c # ''6'') = Some 2"
  by (simp add: epRank_def)

lemma updateEnPassantTarget_ok:
  assumes "isValidMove s fromRow fromCol toRow toCol" "cell (board s) fromRow fromCol = Some p"
  shows "epTargetOk (fenEnPassant (updateEnPassantTarget s p fromRow fromCol toRow toCol))"
proof (cases "ptype p = Pawn \<and> \<bar>toRow - fromRow\<bar> = 2")
  case False
  then show ?thesis by (auto simp: updateEnPassantTarget_value epTargetOk_def)
next
  case True
  with isValidMove_pawn_rows [OF assms] have "(fromRow = 6 \<and> toRow = 4) \<or> (fromRow = 1 \<and> toRow = 3)"
    by auto
  with True show ?thesis
    by (auto simp: updateEnPassantTarget_value epTargetOk_def showInt_3 showInt_6 epRank_3 epRank_6)
qed

lemma not_epSquare_far:
  assumes "epTargetOk ep" "toRow = 0 \<or> toRow = 7"
  shows "\<not> isEpSquare ep toRow toCol"
  using assms by (auto simp: epTargetOk_def isEpSquare_def)

subsection \<open>Every reachable engine keeps the invariant\<close>

lemma wfBoard_startBoard: "wfBoard startBoard"
  by (simp add: wfBoard_def startBoard_def)

lemma wfBoard_handleEnPassant:
  "wfBoard (board s) \<Longrightarrow> wfBoard (board (snd (handleEnPassant s p fromRow fromCol toRow toCol)))"
  by (simp add: handleEnPassant_board wfBoard_setCell)

lemma executePromotion_frame:
  assumes "executePromotion s t = Inr s'"
  shows "fenEnPassant s' = fenEnPassant s"
    and "wfBoard (board s) \<Longrightarrow> wfBoard (board s')"
  using assms
  by (auto simp: executePromotion_def Let_def checkGameEndConditions_frame wfBoard_setCell
      split: option.splits)

lemma executePromotion_resolves:
  assumes pp: "pendingPromotion s = Some pp"
    and p: "cell (board s) (pFromRow pp) (pFromCol pp) = Some p"
    and wf: "wfBoard (board s)"
    and range: "0 \<le> pFromRow pp" "pFromRow pp \<le> 7" "0 \<le> pFromCol pp" "pFromCol pp \<le> 7"
      "0 \<le> pToRow pp" "pToRow pp \<le> 7" "0 \<le> pToCol pp" "pToCol pp \<le> 7"
    and ne: "pToRow pp \<noteq> pFromRow pp"
  shows "\<exists>s'. executePromotion s t = Inr s'
           \<and> cell (board s') (pToRow pp) (pToCol pp) = newPiece (color p) (promotedType t)
           \<and> cell (board s') (pFromRow pp) (pFromCol pp) = None
           \<and> pendingPromotion s' = None"
  using assms
  by (simp add: executePromotion_def Let_def checkGameEndConditions_frame cell_setCell_wf
      wfBoard_setCell)

lemma reachable_engineInv:
  assumes "reachable s"
  shows "engineInv s"
  using assms
proof (induction rule: reachable.induct)
  case init
  show ?case by (simp add: engineInv_def initializeBoard_def wfBoard_startBoard epTargetOk_def)
next
  case (move s fromRow fromCol toRow toCol r s')
  from move.hyps(2) show ?case
  proof (cases rule: makeMove_cases)
    case rejected
    with move.IH show ?thesis by simp
  next
    case (castled p)
    with move.IH show ?thesis
      by (simp add: engineInv_def handleCastling_frame wfBoard_handleCastling)
  next
    case (promotion p)
    with move.IH show ?thesis
      by (simp add: engineInv_def preMove_board preMove_fenEnPassant wfBoard_handleEnPassant
          updateEnPassantTarget_ok)
  next
    case (applied p)
    with move.IH show ?thesis
      by (simp add: engineInv_def checkGameEndConditions_frame postMove_board
          postMove_fenEnPassant wfBoard_handleEnPassant wfBoard_setCell updateEnPassantTarget_ok)
  qed
next
  case (promote s t s')
  with executePromotion_frame [OF promote.hyps(2)] show ?case by (simp add: engineInv_def)
next
  case (castle s sd ok s')
  then have "s' = snd (handleCastling s sd)" by simp
  with castle.IH show ?case
    by (simp add: engineInv_def handleCastling_frame wfBoard_handleCastling)
qed

lemma position_reached:
  assumes "case fastPlay initializeBoard game of Some s \<Rightarrow> P s | None \<Rightarrow> False"
  shows "reachable (position game) \<and> P (position game)"
proof (cases "fastPlay initializeBoard game")
  case None
  with assms show ?thesis by simp
next
  case (Some s)
  with reachable.init have "reachable s" by (rule fastPlay_reachable)
  with assms Some show ?thesis by (simp add: position_def)
qed

subsection \<open>The glyphs on a reachable board\<close>

lemma glyph_inj: "glyph c t = glyph c t' \<Longrightarrow> t = t'"
  by (cases c; cases t; cases t') (simp_all add: glyph_def)

lemma glyphOk_newPiece: "glyphOk (newPiece c t)"
  by (simp add: glyphOk_def newPiece_def)

lemma boardGlyphs_cell: "boardGlyphs b \<Longrightarrow> glyphOk (cell b r c)"
  by (auto simp: cell_def boardGlyphs_def list_all_length rowDefined_def glyphOk_def nat_less_iff)

lemma boardGlyphs_setCell:
  assumes "boardGlyphs b" "glyphOk v"
  shows "boardGlyphs (setCell b r c v)"
proof (cases "rowDefined b r \<and> 0 \<le> c \<and> c < int (length (b ! nat r))")
  case False
  with assms(1) show ?thesis by (auto simp: setCell_def)
next
  case True
  then have "nat r < length b" by (simp add: rowDefined_nat)
  with True assms show ?thesis
    by (auto simp: setCell_def boardGlyphs_def list_all_length nth_list_update)
qed

lemma glyphOk_None: "glyphOk None"
  by (simp add: glyphOk_def)

lemma boardGlyphs_startBoard: "boardGlyphs startBoard"
  by (simp add: startBoard_def boardGlyphs_def glyphOk_newPiece glyphOk_None list_all_iff)

lemma boardGlyphs_handleCastling:
  "boardGlyphs (board s) \<Longrightarrow> boardGlyphs (board (snd (handleCastling s sd)))"
  by (simp add: handleCastling_def Let_def revokeAll_def boardGlyphs_setCell boardGlyphs_cell
      glyphOk_None)

lemma boardGlyphs_handleEnPassant:
  "boardGlyphs (board s) \<Longrightarrow> boardGlyphs (board (snd (handleEnPassant s p fromRow fromCol toRow toCol)))"
  by (simp add: handleEnPassant_board boardGlyphs_setCell glyphOk_None)

lemma boardGlyphs_executePromotion:
  assumes "executePromotion s t = Inr s'" "boardGlyphs (board s)"
  shows "boardGlyphs (board s')"
  using assms
  by (auto simp: executePromotion_def Let_def checkGameEndConditions_frame boardGlyphs_setCell
      glyphOk_newPiece glyphOk_None split: option.splits)

lemma reachable_boardGlyphs:
  assumes "reachable s"
  shows "boardGlyphs (board s)"
  using assms
proof (induction rule: reachable.induct)
  case init
  show ?case by (simp add: initializeBoard_def boardGlyphs_startBoard)
next
  case (move s fromRow fromCol toRow toCol r s')
  from move.hyps(2) show ?case
  proof (cases rule: makeMove_cases)
    case rejected
    with move.IH show ?thesis by simp
  next
    case (castled p)
    with move.IH show ?thesis by (simp add: boardGlyphs_handleCastling)
  next
    case (promotion p)
    with move.IH show ?thesis by (simp add: preMove_board boardGlyphs_handleEnPassant)
  next
    case (applied p)
    from move.IH have "glyphOk (cell (board s) fromRow fromCol)" by (rule boardGlyphs_cell)
    with applied move.IH show ?thesis
      by (simp add: checkGameEndConditions_frame postMove_board boardGlyphs_handleEnPassant
          boardGlyphs_setCell glyphOk_None)
  qed
next
  case (promote s t s')
  then show ?case by (simp add: boardGlyphs_executePromotion)
next
  case (castle s sd ok s')
  then have "s' = snd (handleCastling s sd)" by simp
  with castle.IH show ?case by (simp add: boardGlyphs_handleCastling)
qed

subsection \<open>Piece-move tokens\<close>

lemma file_letters:
  "\<forall>k \<in> set [0, 1, 2, 3, 4, 5, 6, 7].
     epFile (fileOf k) = Some k
     \<and> (\<forall>c \<in> set [0, 1, 2, 3, 4, 5, 6, 7].
          (fileOf k = fileOf c) = (k = c) \<and> fileOf k \<noteq> rankOf c \<and> rankOf c \<noteq> [])"
  by code_simp

lemma in_squares_D: "(row, col) \<in> set squares \<Longrightarrow> row \<in> set [0, 1, 2, 3, 4, 5, 6, 7] \<and> col \<in> set [0, 1, 2, 3, 4, 5, 6, 7]"
  unfolding squares_def in_grid by simp

lemma hintFits_file:
  assumes "fileHint hint" "(row, col) \<in> set squares"
  shows "hintFits hint row col = (hint = [] \<or> (length hint = 1 \<and> Some col = epFile hint))"
proof (cases "hint = []")
  case True
  then show ?thesis by (simp add: hintFits_def)
next
  case False
  with assms(1) obtain k where k: "k \<in> set [0, 1, 2, 3, 4, 5, 6, 7]" and hint: "hint = fileOf k"
    by (auto simp: fileHint_def)
  from in_squares_D [OF assms(2)] have row: "row \<in> set [0, 1, 2, 3, 4, 5, 6, 7]"
    and col: "col \<in> set [0, 1, 2, 3, 4, 5, 6, 7]" by simp_all
  from file_letters k have ep: "epFile (fileOf k) = Some k" by blast
  from file_letters k col have same: "(fileOf k = fileOf col) = (k = col)" by blast
  from file_letters k row have rank: "fileOf k \<noteq> rankOf row" "rankOf row \<noteq> []" by blast+
  have len: "length (fileOf k) = 1" by (simp add: fileOf_def)
  from rank(2) have "length (fileOf col @ rankOf row) \<noteq> 1" by (simp add: fileOf_def)
  with len have both: "fileOf k \<noteq> fileOf col @ rankOf row" by metis
  from len have ne: "fileOf k \<noteq> []" by auto
  show ?thesis unfolding hint hintFits_def using ep same rank(1) both ne len by auto
qed

lemma candidatesFor_fileHint:
  assumes "fileHint hint"
  shows "candidatesFor s targetSymbol hint =
     filter (\<lambda>(row, col).
         (case cell (board s) row col of
            Some p \<Rightarrow> color p = currentPlayer s \<and> symbol p = targetSymbol
          | None \<Rightarrow> False)
         \<and> (hint = [] \<or> (length hint = 1 \<and> Some col = epFile hint)))
       squares"
proof (cases "hint = []")
  case True
  then show ?thesis by (simp add: candidatesFor_def)
next
  case False
  with assms have "length hint = 1" by (auto simp: fileHint_def fileOf_def)
  with False show ?thesis
    by (simp add: candidatesFor_def Let_def case_prod_unfold conj_commute)
qed

lemma legalCandidates_code:
  assumes hint: "fileHint hint" and glyphs: "boardGlyphs (board s)"
  shows "filter (\<lambda>(row, col). isValidMove s row col toRow toCol)
           (candidatesFor s (glyph (currentPlayer s) t) hint)
         = legalCandidates s t hint toRow toCol"
proof -
  have piece: "(case cell (board s) row col of
                  Some p \<Rightarrow> color p = currentPlayer s \<and> symbol p = glyph (currentPlayer s) t
                | None \<Rightarrow> False)
             = (case cell (board s) row col of
                  Some p \<Rightarrow> ptype p = t \<and> color p = currentPlayer s
                | None \<Rightarrow> False)" for row col
  proof (cases "cell (board s) row col")
    case None
    then show ?thesis by simp
  next
    case (Some p)
    with boardGlyphs_cell [OF glyphs, of row col] have "symbol p = glyph (color p) (ptype p)"
      by (simp add: glyphOk_def)
    with Some show ?thesis by (auto dest: glyph_inj)
  qed
  show ?thesis
    unfolding candidatesFor_fileHint [OF hint] legalCandidates_def filter_filter
  proof (rule filter_cong [OF refl])
    fix x
    assume sq: "x \<in> set squares"
    obtain row col where x: "x = (row, col)" by (cases x)
    from sq x have "hintFits hint row col = (hint = [] \<or> (length hint = 1 \<and> Some col = epFile hint))"
      by (intro hintFits_file [OF hint]) simp
    with piece [of row col]
    show "((case x of (row, col) \<Rightarrow>
              (case cell (board s) row col of
                 Some p \<Rightarrow> color p = currentPlayer s \<and> symbol p = glyph (currentPlayer s) t
               | None \<Rightarrow> False)
              \<and> (hint = [] \<or> (length hint = 1 \<and> Some col = epFile hint)))
           \<and> (case x of (row, col) \<Rightarrow> isValidMove s row col toRow toCol))
        = (case x of (row, col) \<Rightarrow>
              (case cell (board s) row col of
                 Some p \<Rightarrow> ptype p = t \<and> color p = currentPlayer s
               | None \<Rightarrow> False)
              \<and> hintFits hint row col
              \<and> isValidMove s row col toRow toCol)"
      unfolding x prod.case by blast
  qed
qed

lemma valid_move_accepted:
  assumes idle: "pendingPromotion s = None" "\<not> isGameOver s"
    and valid: "isValidMove s fromRow fromCol toRow toCol"
  shows "\<exists>r s'. makeMove s fromRow fromCol toRow toCol = Inr (r, s') \<and> r \<noteq> Rejected"
proof -
  from valid obtain p where p: "cell (board s) fromRow fromCol = Some p"
    and geom: "isValidPieceMove (board s) (fenEnPassant s) p fromRow fromCol toRow toCol"
    by (rule isValidMove_D)
  from idle have idle': "\<not> truthy (pendingPromotion s)" by (simp add: truthy_def)
  have nc: "\<not> isCastlingMove (Some p) fromRow fromCol toRow toCol"
  proof
    assume "isCastlingMove (Some p) fromRow fromCol toRow toCol"
    then have "ptype p = King" "\<bar>toCol - fromCol\<bar> = 2" by (auto simp: isCastlingMove_def)
    with geom show False by (simp add: isValidPieceMove_def isValidKingMove_def)
  qed
  show ?thesis
  proof (cases "isPawnPromotion (preMove s p fromRow fromCol toRow toCol) fromRow fromCol toRow toCol")
    case True
    from makeMove_promotion [OF idle' idle(2) p nc valid True] show ?thesis by simp
  next
    case False
    from makeMove_applied [OF idle' idle(2) p nc valid False] show ?thesis by simp
  qed
qed

lemma find_filter_head:
  "find P xs = (case filter P xs of [] \<Rightarrow> None | x # _ \<Rightarrow> Some x)"
  by (induction xs) auto

lemma isValidMove_not_own_target:
  assumes "isValidMove s row col toRow toCol"
  shows "\<not> (case cell (board s) toRow toCol of
              Some target \<Rightarrow> color target = currentPlayer s | None \<Rightarrow> False)"
  using assms
  by (auto simp: isValidMove_def isValidMoveOn_def Let_def split: if_splits option.splits)

lemma legalCandidates_valid:
  "legalCandidates s t hint toRow toCol = (row, col) # rest \<Longrightarrow> isValidMove s row col toRow toCol"
proof -
  assume "legalCandidates s t hint toRow toCol = (row, col) # rest"
  then have "(row, col) \<in> set (legalCandidates s t hint toRow toCol)" by simp
  then show ?thesis by (simp add: legalCandidates_def)
qed

text \<open>
  A hint that names a rank finds no piece: \<open>findPieceForMove\<close> reads a hint of one
  character as a file, and a longer one through \<^verbatim>\<open>parseInt\<close>, which gives \<^verbatim>\<open>NaN\<close> when the
  hint starts with a file letter.
\<close>

lemma rank_digits:
  "\<forall>r \<in> set [0, 1, 2, 3, 4, 5, 6, 7].
     rankOf r \<noteq> [] \<and> length (rankOf r) = 1
     \<and> (\<forall>c \<in> set [0, 1, 2, 3, 4, 5, 6, 7].
          epFile (rankOf r) \<noteq> Some c
          \<and> parseInt (fileOf c @ rankOf r) = None)"
  by code_simp

lemma rank_hint_finds_no_piece:
  assumes row: "row \<in> set [0, 1, 2, 3, 4, 5, 6, 7]" and col: "col \<in> set [0, 1, 2, 3, 4, 5, 6, 7]"
  shows "findPieceForMove s pieceType (rankOf row) toRow toCol = None"
    and "findPieceForMove s pieceType (fileOf col @ rankOf row) toRow toCol = None"
proof -
  from rank_digits row have ne: "rankOf row \<noteq> []" and len: "length (rankOf row) = 1"
    and noFile: "\<forall>c \<in> set [0, 1, 2, 3, 4, 5, 6, 7]. epFile (rankOf row) \<noteq> Some c"
    by blast+
  from rank_digits row col have nan: "parseInt (fileOf col @ rankOf row) = None" by blast
  have "filter (\<lambda>(r, c). Some c = epFile (rankOf row)) (filter P squares) = []" for P
    using noFile by (auto simp: filter_empty_conv dest!: in_squares_D)
  with ne len have "candidatesFor s targetSymbol (rankOf row) = []" for targetSymbol
    by (simp add: candidatesFor_def Let_def)
  then show "findPieceForMove s pieceType (rankOf row) toRow toCol = None"
    by (simp add: findPieceForMove_def split: option.splits)
  from ne have "length (fileOf col @ rankOf row) \<noteq> 1" by (simp add: fileOf_def)
  with nan have "candidatesFor s targetSymbol (fileOf col @ rankOf row) = []" for targetSymbol
    by (simp add: candidatesFor_def Let_def fileOf_def)
  then show "findPieceForMove s pieceType (fileOf col @ rankOf row) toRow toCol = None"
    by (simp add: findPieceForMove_def split: option.splits)
qed

section \<open>The games, played\<close>

text \<open>
  Each game is run once through \<open>fastPlay\<close> by rewriting with the code equations; the
  engine it ends in is reachable (lemmas \<open>fastPlay_reachable\<close>, \<open>position_reached\<close>).
\<close>

lemma pinnedPawnGame_played:
  "case fastPlay initializeBoard pinnedPawnGame of Some s \<Rightarrow> pinnedPawnFacts s | None \<Rightarrow> False"
  by code_simp

lemma pinnedPawnPosition:
  "reachable (position pinnedPawnGame) \<and> pinnedPawnFacts (position pinnedPawnGame)"
  using pinnedPawnGame_played by (rule position_reached)

lemma promotionGame_played:
  "case fastPlay initializeBoard promotionGame of Some s \<Rightarrow> promotionFacts s | None \<Rightarrow> False"
  by code_simp

lemma promotionPosition:
  "reachable (position promotionGame) \<and> promotionFacts (position promotionGame)"
  using promotionGame_played by (rule position_reached)

lemma promotionPosition_promotes:
  "\<exists>s'. makeMove (position promotionGame) 1 0 0 1 = Inr (Promotion, s')"
proof -
  let ?s = "position promotionGame"
  from promotionPosition have f: "promotionFacts ?s" by simp
  then have "isPawnPromotion (preMove ?s whitePawn 1 0 0 1) 1 0 0 1"
    by (simp add: isPawnPromotion_def preMove_from promotionFacts_def whitePawn_def)
  with f have "makeMove ?s 1 0 0 1 =
      Inr (Promotion, (preMove ?s whitePawn 1 0 0 1)
        \<lparr>pendingPromotion := Some \<lparr>pFromRow = 1, pFromCol = 0, pToRow = 0, pToCol = 1,
            pColor = color whitePawn\<rparr>\<rparr>)"
    by (intro makeMove_promotion)
       (simp_all add: promotionFacts_def truthy_def pawn_not_castling whitePawn_def)
  then show ?thesis by blast
qed

lemma castleGame_played:
  "case fastPlay initializeBoard castleGame of Some s \<Rightarrow> castleFacts s | None \<Rightarrow> False"
  by code_simp

lemma castlePosition:
  "reachable (position castleGame) \<and> castleFacts (position castleGame)"
  using castleGame_played by (rule position_reached)

lemma castlePosition_castles:
  "makeMove (position castleGame) 7 4 7 6
     = Inr (Applied, snd (handleCastling (position castleGame) Kingside))"
proof -
  let ?s = "position castleGame"
  from castlePosition have f: "castleFacts ?s" by simp
  have c: "isCastlingMove (Some whiteKing) 7 4 7 6"
    by (simp add: isCastlingMove_def whiteKing_def)
  from f have "makeMove ?s 7 4 7 6 =
      (if canCastle ?s (color whiteKing) (sideOf 6)
       then castlingResult (handleCastling ?s (sideOf 6)) else Inr (Rejected, ?s))"
    by (intro makeMove_castling c) (simp_all add: castleFacts_def truthy_def)
  with f show ?thesis
    by (simp add: castleFacts_def castlingResult_cases sideOf_def whiteKing_def)
qed

lemma capturedRookGame_played:
  "case fastPlay initializeBoard capturedRookGame of Some s \<Rightarrow> capturedRookFacts s | None \<Rightarrow> False"
  by code_simp

lemma capturedRookPosition:
  "reachable (position capturedRookGame) \<and> capturedRookFacts (position capturedRookGame)"
  using capturedRookGame_played by (rule position_reached)

lemma knightsGame_played:
  "case fastPlay initializeBoard knightsGame of Some s \<Rightarrow> knightsFacts s | None \<Rightarrow> False"
  by code_simp

lemma knightsPosition:
  "reachable (position knightsGame) \<and> knightsFacts (position knightsGame)"
  using knightsGame_played by (rule position_reached)

lemma kingHomeGame_played:
  "case fastPlay initializeBoard kingHomeGame of Some s \<Rightarrow> kingHomeFacts s | None \<Rightarrow> False"
  by code_simp

lemma knightHomeGame_played:
  "case fastPlay initializeBoard knightHomeGame of Some s \<Rightarrow> knightHomeFacts s | None \<Rightarrow> False"
  by code_simp

lemma castleMate_played:
  "case makeMove castleMate 7 4 7 6 of
     Inr (Applied, s') \<Rightarrow>
       currentPlayer s' = Black \<and> \<not> isGameOver s' \<and> gameWinner s' = None
       \<and> cell (board s') 7 6 = newPiece White King \<and> cell (board s') 7 5 = newPiece White Rook
       \<and> getAllLegalMoves s' = [] \<and> isInCheck s' Black
       \<and> fst (checkGameEndConditions s') = Some Checkmate
       \<and> isGameOver (snd (checkGameEndConditions s'))
   | _ \<Rightarrow> False"
  by code_simp

section \<open>The claims\<close>

subsection \<open>C1: no accepted move leaves the mover's king in check\<close>

text \<open>
  C1 says that in every reachable engine a move \<open>makeMove\<close> accepts never leaves the
  mover's own king in check, the en-passant capture included. The scratch board of
  \<open>isValidMove\<close> moves the capturing pawn and leaves the captured pawn where it is, so
  the claim fails where that pawn is the last piece on the line between the king and an
  attacker. After 1.e4 a5 2.e5 Ra6 3.Ke2 Rb6 4.Kf3 Rb5 5.Kg4 a4 6.Kg5 d5 the white king
  is not in check; \<open>isValidMove\<close> accepts 7.exd6 en passant, \<open>makeMove\<close> returns \<^verbatim>\<open>true\<close>,
  the pawn on d5 is gone and the rook on b5 checks the king on g5.
\<close>

theorem en_passant_exposes_own_king:
  "reachable (position pinnedPawnGame)
   \<and> currentPlayer (position pinnedPawnGame) = White
   \<and> \<not> isInCheck (position pinnedPawnGame) White
   \<and> isValidMove (position pinnedPawnGame) 3 4 2 3
   \<and> (\<exists>s'. makeMove (position pinnedPawnGame) 3 4 2 3 = Inr (Applied, s')
          \<and> cell (board s') 3 3 = None
          \<and> isInCheck s' White)"
proof -
  let ?s = "position pinnedPawnGame"
  from pinnedPawnPosition have r: "reachable ?s" and f: "pinnedPawnFacts ?s" by simp_all
  from f have "makeMove ?s 3 4 2 3
      = Inr (Applied, snd (checkGameEndConditions (postMove ?s whitePawn 3 4 2 3)))"
    by (intro makeMove_applied) (simp_all add: pinnedPawnFacts_def pawn_not_castling whitePawn_def)
  with r f show ?thesis
    by (simp add: pinnedPawnFacts_def isInCheck_after_end_check checkGameEndConditions_frame)
qed

subsection \<open>C2: when castling is accepted\<close>

text \<open>
  C2 says that castling is accepted only if the rook that takes part has never moved,
  and counts a rook captured on its home square as one that has. The engine keeps no
  such record: \<open>updateCastlingRights\<close> looks at the piece that moves only (it clears a
  rook flag when a rook leaves column 0 or 7, and none when a rook is taken), and
  \<open>canCastle\<close> reads the flags and the squares between king and rook, not the rook's
  square. After 1.Nf3 Nf6 2.g3 Ne4 3.Bg2 Nxg3 4.a3 Nxh1 5.Bxh1 a6 6.Bg2 b6 the white rook
  has been captured on h1 and the square is empty, the king stands on e1 and has not
  moved, and the kingside rook flag is still set; \<open>makeMove\<close> accepts 7.O-O and returns
  \<^verbatim>\<open>true\<close>: the king goes to g1 alone, e1, f1 and h1 are empty, and it is Black's turn.
\<close>

theorem castling_after_rook_captured:
  "reachable (position capturedRookGame)
   \<and> moveHistory (position capturedRookGame)
       = [''Nf3'', ''Nf6'', ''g3'', ''Ne4'', ''Bg2'', ''Nxg3'', ''a3'', ''Nxh1'',
          ''Bxh1'', ''a6'', ''Bg2'', ''b6'']
   \<and> currentPlayer (position capturedRookGame) = White
   \<and> cell (board (position capturedRookGame)) 7 4 = Some whiteKing
   \<and> cell (board (position capturedRookGame)) 7 7 = None
   \<and> rookKing (rightsOf (position capturedRookGame) White)
   \<and> (\<exists>s'. makeMove (position capturedRookGame) 7 4 7 6 = Inr (Applied, s')
          \<and> currentPlayer s' = Black
          \<and> cell (board s') 7 4 = None
          \<and> cell (board s') 7 5 = None
          \<and> cell (board s') 7 6 = Some whiteKing
          \<and> cell (board s') 7 7 = None)"
proof -
  let ?s = "position capturedRookGame"
  from capturedRookPosition have r: "reachable ?s" and f: "capturedRookFacts ?s" by simp_all
  obtain ok s' where h: "handleCastling ?s Kingside = (ok, s')" by (cases "handleCastling ?s Kingside")
  with f have ok and after: "currentPlayer s' = Black" "cell (board s') 7 4 = None"
    "cell (board s') 7 5 = None" "cell (board s') 7 6 = Some whiteKing" "cell (board s') 7 7 = None"
    by (simp_all add: capturedRookFacts_def)
  from h \<open>ok\<close> f have can: "canCastle ?s White Kingside"
    using handleCastling_fst [of ?s Kingside] by (simp add: capturedRookFacts_def)
  have c: "isCastlingMove (Some whiteKing) 7 4 7 6"
    by (simp add: isCastlingMove_def whiteKing_def)
  from f have "makeMove ?s 7 4 7 6 =
      (if canCastle ?s (color whiteKing) (sideOf 6)
       then castlingResult (handleCastling ?s (sideOf 6)) else Inr (Rejected, ?s))"
    by (intro makeMove_castling c) (simp_all add: capturedRookFacts_def)
  with can h \<open>ok\<close> have "makeMove ?s 7 4 7 6 = Inr (Applied, s')"
    by (simp add: castlingResult_def sideOf_def whiteKing_def)
  with r f after show ?thesis by (simp add: capturedRookFacts_def)
qed


subsection \<open>C3: a pawn on the far rank suspends the move\<close>

text \<open>
  C3: with no promotion pending and the game not over, a pawn move that \<open>isValidMove\<close>
  accepts and that lands on the far rank (row 0 for White, row 7 for Black) makes
  \<open>makeMove\<close> return \<^verbatim>\<open>'promotion'\<close>, not \<^verbatim>\<open>true\<close>; the engine it leaves has the pending
  promotion recorded, and every further call of \<open>makeMove\<close> on it is rejected and
  changes nothing (until \<open>executePromotion\<close> clears the record, lemma
  \<open>executePromotion_resolves\<close>).
\<close>

theorem promotion_suspends_the_move:
  assumes idle: "pendingPromotion s = None" "\<not> isGameOver s"
    and pawn: "cell (board s) fromRow fromCol = Some p" "ptype p = Pawn"
    and valid: "isValidMove s fromRow fromCol toRow toCol"
    and far: "(color p = White \<and> toRow = 0) \<or> (color p = Black \<and> toRow = 7)"
  shows "\<exists>s'. makeMove s fromRow fromCol toRow toCol = Inr (Promotion, s')
           \<and> pendingPromotion s' =
                Some \<lparr>pFromRow = fromRow, pFromCol = fromCol, pToRow = toRow, pToCol = toCol,
                      pColor = color p\<rparr>
           \<and> (\<forall>a b c d. makeMove s' a b c d = Inr (Rejected, s'))"
proof -
  let ?pp = "\<lparr>pFromRow = fromRow, pFromCol = fromCol, pToRow = toRow, pToCol = toCol,
               pColor = color p\<rparr>"
  let ?s' = "(preMove s p fromRow fromCol toRow toCol)\<lparr>pendingPromotion := Some ?pp\<rparr>"
  from idle have idle': "\<not> truthy (pendingPromotion s)" "\<not> isGameOver s"
    by (simp_all add: truthy_def)
  from pawn far
  have "isPawnPromotion (preMove s p fromRow fromCol toRow toCol) fromRow fromCol toRow toCol"
    by (auto simp: isPawnPromotion_def preMove_from)
  with idle' pawn valid have "makeMove s fromRow fromCol toRow toCol = Inr (Promotion, ?s')"
    by (intro makeMove_promotion pawn_not_castling)
  moreover have "pendingPromotion ?s' = Some ?pp" by simp
  moreover from this have "\<forall>a b c d. makeMove ?s' a b c d = Inr (Rejected, ?s')"
    by (intro allI pending_rejects)
  ultimately show ?thesis by blast
qed

theorem promotion_suspends_the_move_witness:
  "pendingPromotion (position promotionGame) = None \<and> \<not> isGameOver (position promotionGame)
   \<and> cell (board (position promotionGame)) 1 0 = Some whitePawn
   \<and> isValidMove (position promotionGame) 1 0 0 1
   \<and> (\<exists>s'. makeMove (position promotionGame) 1 0 0 1 = Inr (Promotion, s')
          \<and> pendingPromotion s' =
               Some \<lparr>pFromRow = 1, pFromCol = 0, pToRow = 0, pToCol = 1, pColor = White\<rparr>
          \<and> (\<forall>a b c d. makeMove s' a b c d = Inr (Rejected, s')))"
  using promotionPosition
    promotion_suspends_the_move [of "position promotionGame" 1 0 whitePawn 0 1]
  by (simp add: promotionFacts_def whitePawn_def)

subsection \<open>C4: rejections and faults of \<open>makeMove\<close>\<close>

lemma makeMove_throws:
  assumes "\<not> truthy (pendingPromotion s)" "\<not> isGameOver s" "\<not> rowDefined (board s) fromRow"
  shows "makeMove s fromRow fromCol toRow toCol = Inl TypeError"
  using assms by (simp add: makeMove_def)

text \<open>
  C4 says that \<open>makeMove\<close> answers every input, out-of-range coordinates included, with a
  rejection and never with a fault, and that a rejection leaves the engine unchanged.
  The second half holds (lemma \<open>makeMove_rejected_unchanged\<close>). The first does not: on
  the initialised engine, a move from row 8 (or from row -1) is no rejection but the
  TypeError of the read \<^verbatim>\<open>this.board[fromRow][fromCol]\<close>, which \<open>makeMove\<close> makes before
  \<open>isValidMove\<close> checks the bounds.
\<close>

theorem makeMove_out_of_range_row_throws:
  "makeMove initializeBoard 8 0 0 0 = Inl TypeError
   \<and> makeMove initializeBoard (- 1) 0 0 0 = Inl TypeError"
  by (simp add: makeMove_throws truthy_def initializeBoard_def rowDefined_def startBoard_def)

subsection \<open>C5: the en-passant target lives for one ply\<close>

text \<open>A move through the plain path of \<open>makeMove\<close> sets the field as C5 says.\<close>

lemma plain_move_sets_en_passant_target:
  assumes "makeMove s fromRow fromCol toRow toCol = Inr (r, s')" "r \<noteq> Rejected"
    and "cell (board s) fromRow fromCol = Some p"
    and "\<not> isCastlingMove (Some p) fromRow fromCol toRow toCol"
  shows "fenEnPassant s' =
           (if ptype p = Pawn \<and> \<bar>toRow - fromRow\<bar> = 2
            then fromCharCode (97 + fromCol) # showInt (8 - (fromRow + toRow) div 2)
            else ''-'')"
  using assms(1)
proof (cases rule: makeMove_cases)
  case rejected
  with assms(2) show ?thesis by simp
next
  case (castled q)
  with assms(3,4) show ?thesis by simp
next
  case (promotion q)
  with assms(3) show ?thesis
    by (simp add: preMove_fenEnPassant updateEnPassantTarget_value)
next
  case (applied q)
  with assms(3) show ?thesis
    by (simp add: checkGameEndConditions_frame postMove_fenEnPassant updateEnPassantTarget_value)
qed

text \<open>
  C5 says that the en-passant target is cleared on every move before it is set again,
  so that it is there for at most one ply, castling included. \<open>handleCastling\<close> never
  touches the field. After 1.e4 e5 2.Nf3 Nc6 3.Bc4 a5 the target is a6; White castles,
  \<open>makeMove\<close> returns \<^verbatim>\<open>true\<close>, and the target is still a6.
\<close>

theorem castling_keeps_en_passant_target:
  "reachable (position castleGame)
   \<and> fenEnPassant (position castleGame) = ''a6''
   \<and> (\<exists>s'. makeMove (position castleGame) 7 4 7 6 = Inr (Applied, s')
          \<and> fenEnPassant s' = ''a6'')"
  using castlePosition castlePosition_castles
  by (simp add: castleFacts_def handleCastling_frame)

subsection \<open>C6: the halfmove clock\<close>

lemma handleEnPassant_to:
  "cell (board (snd (handleEnPassant s p fromRow fromCol toRow toCol))) toRow toCol
     = cell (board s) toRow toCol"
  by (simp add: handleEnPassant_board cell_setCell_other)

lemma preMove_halfmoveClock:
  "halfmoveClock (preMove s p fromRow fromCol toRow toCol) =
     (if ptype p = Pawn
         \<or> (case cell (board s) toRow toCol of Some t \<Rightarrow> color t \<noteq> color p | None \<Rightarrow> False)
         \<or> fst (handleEnPassant s p fromRow fromCol toRow toCol)
      then 0 else halfmoveClock s + 1)"
  by (simp add: preMove_def Let_def step_frames handleEnPassant_prepared handleEnPassant_to)

text \<open>A move through the plain path of \<open>makeMove\<close> counts as C6 says.\<close>

lemma plain_move_counts_halfmoves:
  assumes "makeMove s fromRow fromCol toRow toCol = Inr (r, s')" "r \<noteq> Rejected"
    and "cell (board s) fromRow fromCol = Some p"
    and "\<not> isCastlingMove (Some p) fromRow fromCol toRow toCol"
  shows "halfmoveClock s' =
           (if ptype p = Pawn
               \<or> (case cell (board s) toRow toCol of Some t \<Rightarrow> color t \<noteq> color p | None \<Rightarrow> False)
               \<or> fst (handleEnPassant s p fromRow fromCol toRow toCol)
            then 0 else halfmoveClock s + 1)"
  using assms(1)
proof (cases rule: makeMove_cases)
  case rejected
  with assms(2) show ?thesis by simp
next
  case (castled q)
  with assms(3,4) show ?thesis by simp
next
  case (promotion q)
  with assms(3) show ?thesis by (simp add: preMove_halfmoveClock)
next
  case (applied q)
  with assms(3) show ?thesis
    by (simp add: checkGameEndConditions_frame postMove_via_preMove preMove_halfmoveClock)
qed

text \<open>
  C6 says that the halfmove clock goes back to 0 on a pawn move or a capture and up by
  one on every other completed move, castling named. \<open>handleCastling\<close> never touches
  the clock. After 1.e4 e5 2.Nf3 Nc6 3.Bc4 a5 the clock is 0; White castles, \<open>makeMove\<close>
  returns \<^verbatim>\<open>true\<close>, and the clock is still 0, not 1.
\<close>

theorem castling_keeps_halfmove_clock:
  "reachable (position castleGame)
   \<and> halfmoveClock (position castleGame) = 0
   \<and> (\<exists>s'. makeMove (position castleGame) 7 4 7 6 = Inr (Applied, s')
          \<and> halfmoveClock s' = 0)"
  using castlePosition castlePosition_castles
  by (simp add: castleFacts_def handleCastling_frame)

subsection \<open>C7: the end of the game is looked for after every move\<close>

text \<open>
  C7 says that after every completed move, castling named, the engine looks for the
  end of the game. \<open>handleCastling\<close> returns without calling
  \<^verbatim>\<open>checkGameEndConditions\<close>. With White's king on e1, rook on h1, queen on e6 and pawn
  on h6 against the bare king on f8, castling kingside is accepted and mates: Black
  is to move, has no legal move and is in check, \<^verbatim>\<open>checkGameEndConditions\<close> would say
  checkmate, and the engine still has the game running, with no winner.
\<close>

theorem castling_skips_game_end_check:
  "wfBoard (board castleMate) \<and> \<not> isGameOver castleMate
   \<and> (\<exists>s'. makeMove castleMate 7 4 7 6 = Inr (Applied, s')
          \<and> currentPlayer s' = Black
          \<and> getAllLegalMoves s' = [] \<and> isInCheck s' Black
          \<and> \<not> isGameOver s' \<and> gameWinner s' = None
          \<and> fst (checkGameEndConditions s') = Some Checkmate
          \<and> isGameOver (snd (checkGameEndConditions s')))"
proof -
  have wf: "wfBoard (board castleMate) \<and> \<not> isGameOver castleMate"
    by (simp add: castleMate_def castleMateBoard_def wfBoard_def initializeBoard_def)
  show ?thesis
  proof (cases "makeMove castleMate 7 4 7 6")
    case (Inl e)
    with castleMate_played show ?thesis by simp
  next
    case (Inr rs)
    obtain r s' where "rs = (r, s')" by (cases rs) auto
    with Inr castleMate_played wf show ?thesis by (cases r) simp_all
  qed
qed

subsection \<open>C8: the fingerprint of a position\<close>

text \<open>
  C8 says that two engines have the same fingerprint only if every square holds the
  same piece in both, a king against a knight named. \<open>generatePositionKey\<close> writes a
  piece as the first letters of its colour and of its type, and \<^verbatim>\<open>'king'\<close> and
  \<^verbatim>\<open>'knight'\<close> both start with k. The games 1.e4 Nf6 2.Ke2 Ng8 3.Ke1 Nf6 4.Ne2 Ng8 and
  1.e4 Nf6 2.Ke2 Ng8 3.Nf3 Nf6 4.Ne1 Ng8 end with the white king on e1 and a knight on
  e2 in the one and the knight on e1 and the king on e2 in the other, and in the same
  fingerprint.
\<close>

theorem king_and_knight_share_a_fingerprint:
  "reachable (position kingHomeGame) \<and> reachable (position knightHomeGame)
   \<and> cell (board (position kingHomeGame)) 7 4 = newPiece White King
   \<and> cell (board (position knightHomeGame)) 7 4 = newPiece White Knight
   \<and> board (position kingHomeGame) \<noteq> board (position knightHomeGame)
   \<and> generatePositionKey (position kingHomeGame) = generatePositionKey (position knightHomeGame)"
proof -
  from kingHomeGame_played have a: "reachable (position kingHomeGame) \<and> kingHomeFacts (position kingHomeGame)"
    by (rule position_reached)
  from knightHomeGame_played have b: "reachable (position knightHomeGame) \<and> knightHomeFacts (position knightHomeGame)"
    by (rule position_reached)
  from a b have "cell (board (position kingHomeGame)) 7 4 \<noteq> cell (board (position knightHomeGame)) 7 4"
    by (simp add: kingHomeFacts_def knightHomeFacts_def newPiece_def)
  then have "board (position kingHomeGame) \<noteq> board (position knightHomeGame)" by auto
  with a b show ?thesis by (simp add: kingHomeFacts_def knightHomeFacts_def)
qed

subsection \<open>C9: a piece-move token that fits two pieces\<close>

text \<open>
  C9 as it is written says that a token which more than one piece of the type can
  legally play is rejected. \<open>findPieceForMove\<close> has no such test: it returns the first
  candidate that \<open>isValidMove\<close> accepts. After 1.d4 d5 2.Nf3 Nf6 both white knights can
  go to d2; the token \<^verbatim>\<open>nd2\<close> is played, with the knight from f3, which the board scan
  meets first.
\<close>

theorem ambiguous_knight_token_is_played:
  "reachable (position knightsGame)
   \<and> cell (board (position knightsGame)) 5 5 = Some whiteKnight
   \<and> cell (board (position knightsGame)) 7 1 = Some whiteKnight
   \<and> isValidMove (position knightsGame) 5 5 6 3
   \<and> isValidMove (position knightsGame) 7 1 6 3
   \<and> (\<exists>s'. handlePieceMove (position knightsGame) CHR ''n'' [] 6 3 = Inr (Applied, s')
          \<and> cell (board s') 6 3 = Some whiteKnight
          \<and> cell (board s') 5 5 = None
          \<and> cell (board s') 7 1 = Some whiteKnight)"
proof -
  let ?s = "position knightsGame"
  from knightsPosition have r: "reachable ?s" and f: "knightsFacts ?s" by simp_all
  have nc: "\<not> isCastlingMove (Some whiteKnight) 5 5 6 3"
    by (simp add: isCastlingMove_def whiteKnight_def)
  from f have "makeMove ?s 5 5 6 3
      = Inr (Applied, snd (checkGameEndConditions (postMove ?s whiteKnight 5 5 6 3)))"
    by (intro makeMove_applied nc) (simp_all add: knightsFacts_def)
  with f have "handlePieceMove ?s CHR ''n'' [] 6 3
      = Inr (Applied, snd (checkGameEndConditions (postMove ?s whiteKnight 5 5 6 3)))"
    by (simp add: handlePieceMove_def knightsFacts_def)
  with r f show ?thesis by (simp add: knightsFacts_def checkGameEndConditions_frame)
qed

text \<open>
  C9, amended: for a token with one of the piece letters k, q, r, b, n, p and with no
  hint or a file letter for a hint, on a board whose pieces carry their own glyphs
  (every reachable board, lemma \<open>reachable_boardGlyphs\<close>), \<open>findPieceForMove\<close> returns
  the first, in the order of the board scan (rows 0 to 7, columns 0 to 7 in each), of
  the pieces of that type and of the side to move that the hint fits and that can
  legally reach the destination; \<open>handlePieceMove\<close> hands the move of that piece to
  \<open>makeMove\<close>, whether or not a second piece could move there too; and with no promotion
  pending and the game not over the token is rejected, without a move, exactly when
  there is no such piece, and accepted (\<^verbatim>\<open>true\<close> or \<^verbatim>\<open>'promotion'\<close>) otherwise. With a
  promotion pending or the game over \<open>makeMove\<close> rejects every move. Hints that name a
  rank are left out: with them the code finds no piece at all (lemma
  \<open>rank_hint_finds_no_piece\<close>).
\<close>

theorem piece_token_takes_first_legal_candidate:
  assumes letter: "pieceOfLetter pieceType = Some t"
    and hint: "fileHint disambiguation"
    and glyphs: "boardGlyphs (board s)"
  shows "findPieceForMove s pieceType disambiguation toRow toCol =
           (case legalCandidates s t disambiguation toRow toCol of
              [] \<Rightarrow> None | x # _ \<Rightarrow> Some x)
       \<and> handlePieceMove s pieceType disambiguation toRow toCol =
           (case legalCandidates s t disambiguation toRow toCol of
              [] \<Rightarrow> Inr (Rejected, s)
            | (row, col) # _ \<Rightarrow> makeMove s row col toRow toCol)
       \<and> (pendingPromotion s = None \<and> \<not> isGameOver s \<longrightarrow>
            (\<exists>r s'. handlePieceMove s pieceType disambiguation toRow toCol = Inr (r, s')
                    \<and> (r = Rejected) = (legalCandidates s t disambiguation toRow toCol = [])))"
proof -
  let ?cands = "candidatesFor s (glyph (currentPlayer s) t) disambiguation"
  let ?P = "\<lambda>(row, col).
        \<not> (case cell (board s) toRow toCol of
              Some target \<Rightarrow> color target = currentPlayer s | None \<Rightarrow> False)
        \<and> isValidMove s row col toRow toCol"
  let ?Q = "\<lambda>(row, col). isValidMove s row col toRow toCol"
  let ?legal = "legalCandidates s t disambiguation toRow toCol"
  have "findPieceForMove s pieceType disambiguation toRow toCol = find ?P ?cands"
    by (simp only: findPieceForMove_def letter option.case)
  also have "\<dots> = find ?Q ?cands"
    by (rule find_cong [OF refl]) (use isValidMove_not_own_target in blast)
  also have "\<dots> = (case filter ?Q ?cands of [] \<Rightarrow> None | x # _ \<Rightarrow> Some x)"
    by (rule find_filter_head)
  finally have found: "findPieceForMove s pieceType disambiguation toRow toCol =
      (case ?legal of [] \<Rightarrow> None | x # _ \<Rightarrow> Some x)"
    by (simp only: legalCandidates_code [OF hint glyphs])
  then have played: "handlePieceMove s pieceType disambiguation toRow toCol =
      (case ?legal of [] \<Rightarrow> Inr (Rejected, s) | (row, col) # _ \<Rightarrow> makeMove s row col toRow toCol)"
    by (auto simp: handlePieceMove_def split: list.splits)
  have "\<exists>r s'. handlePieceMove s pieceType disambiguation toRow toCol = Inr (r, s')
            \<and> (r = Rejected) = (?legal = [])"
    if idle: "pendingPromotion s = None" "\<not> isGameOver s"
  proof (cases ?legal)
    case Nil
    with played show ?thesis by simp
  next
    case (Cons x rest)
    obtain row col where x: "x = (row, col)" by (cases x)
    from Cons x have "isValidMove s row col toRow toCol" by (intro legalCandidates_valid) simp
    from valid_move_accepted [OF idle this] Cons x played show ?thesis by auto
  qed
  with found played show ?thesis by blast
qed


theorem piece_token_takes_first_legal_candidate_witness:
  "pieceOfLetter CHR ''n'' = Some Knight
   \<and> fileHint [] \<and> fileHint ''b''
   \<and> boardGlyphs (board (position knightsGame))
   \<and> pendingPromotion (position knightsGame) = None \<and> \<not> isGameOver (position knightsGame)
   \<and> legalCandidates (position knightsGame) Knight [] 6 3 = [(5, 5), (7, 1)]
   \<and> findPieceForMove (position knightsGame) CHR ''n'' [] 6 3 = Some (5, 5)
   \<and> handlePieceMove (position knightsGame) CHR ''n'' [] 6 3
       = makeMove (position knightsGame) 5 5 6 3
   \<and> (\<exists>r s'. handlePieceMove (position knightsGame) CHR ''n'' [] 6 3 = Inr (r, s')
             \<and> r \<noteq> Rejected)
   \<and> legalCandidates (position knightsGame) Knight ''b'' 6 3 = [(7, 1)]
   \<and> findPieceForMove (position knightsGame) CHR ''n'' ''b'' 6 3 = Some (7, 1)
   \<and> handlePieceMove (position knightsGame) CHR ''n'' ''b'' 6 3
       = makeMove (position knightsGame) 7 1 6 3
   \<and> legalCandidates (position knightsGame) Knight [] 4 0 = []
   \<and> handlePieceMove (position knightsGame) CHR ''n'' [] 4 0
       = Inr (Rejected, position knightsGame)"
proof -
  let ?s = "position knightsGame"
  have n: "pieceOfLetter CHR ''n'' = Some Knight" by (simp add: pieceOfLetter_def)
  have h0: "fileHint []" by (simp add: fileHint_def)
  have hb: "fileHint ''b''" by code_simp
  from knightsPosition have r: "reachable ?s" and f: "knightsFacts ?s" by simp_all
  from r have g: "boardGlyphs (board ?s)" by (rule reachable_boardGlyphs)
  from f have idle: "pendingPromotion ?s = None" "\<not> isGameOver ?s"
    and l1: "legalCandidates ?s Knight [] 6 3 = [(5, 5), (7, 1)]"
    and l2: "legalCandidates ?s Knight ''b'' 6 3 = [(7, 1)]"
    and l3: "legalCandidates ?s Knight [] 4 0 = []"
    by (simp_all add: knightsFacts_def truthy_def split: option.splits)
  note t1 = piece_token_takes_first_legal_candidate [OF n h0 g, of 6 3]
  note t2 = piece_token_takes_first_legal_candidate [OF n hb g, of 6 3]
  note t3 = piece_token_takes_first_legal_candidate [OF n h0 g, of 4 0]
  from t1 l1 have a1: "findPieceForMove ?s CHR ''n'' [] 6 3 = Some (5, 5)"
    and a2: "handlePieceMove ?s CHR ''n'' [] 6 3 = makeMove ?s 5 5 6 3" by simp_all
  from t1 idle have "\<exists>r s'. handlePieceMove ?s CHR ''n'' [] 6 3 = Inr (r, s')
      \<and> (r = Rejected) = (legalCandidates ?s Knight [] 6 3 = [])" by blast
  with l1 have a3: "\<exists>r s'. handlePieceMove ?s CHR ''n'' [] 6 3 = Inr (r, s') \<and> r \<noteq> Rejected"
    by simp
  from t2 l2 have b1: "findPieceForMove ?s CHR ''n'' ''b'' 6 3 = Some (7, 1)"
    and b2: "handlePieceMove ?s CHR ''n'' ''b'' 6 3 = makeMove ?s 7 1 6 3" by simp_all
  from t3 l3 have c1: "handlePieceMove ?s CHR ''n'' [] 4 0 = Inr (Rejected, ?s)" by simp
  show ?thesis by (intro conjI n h0 hb g idle l1 l2 l3 a1 a2 a3 b1 b2 c1)
qed


subsection \<open>C10: what a suspended promotion has changed\<close>

text \<open>
  C10: when \<open>makeMove\<close> returns \<^verbatim>\<open>'promotion'\<close> in an engine whose board is 8 by 8 and
  whose en-passant field is \<^verbatim>\<open>'-'\<close> or names a square of rank 3 or 6 (every reachable
  engine, lemma \<open>reachable_engineInv\<close>), the board is the one before the call, with the
  pawn on its from-square and the destination as it was, and the bookkeeping of the
  suspended move is done: the castling rights are those before the call (a pawn move
  takes none away), the en-passant field is \<^verbatim>\<open>'-'\<close> whatever it was before (the pawn has
  come one row), and the halfmove clock is 0 whatever it was before; \<open>executePromotion\<close>
  is what then puts the new piece on the destination and empties the from-square. (In
  an engine that no game reaches, with an en-passant field naming a square of the far
  rank, the call could take a pawn off the board.)
\<close>

theorem promotion_leaves_board:
  assumes "engineInv s"
    and "makeMove s fromRow fromCol toRow toCol = Inr (Promotion, s')"
  shows "board s' = board s
       \<and> (\<exists>p. cell (board s') fromRow fromCol = Some p \<and> ptype p = Pawn
              \<and> (\<forall>t. \<exists>s''. executePromotion s' t = Inr s''
                     \<and> cell (board s'') toRow toCol = newPiece (color p) (promotedType t)
                     \<and> cell (board s'') fromRow fromCol = None))
       \<and> cell (board s') toRow toCol = cell (board s) toRow toCol
       \<and> castlingRights s' = castlingRights s
       \<and> fenCastling s' = fenCastling s
       \<and> fenEnPassant s' = ''-''
       \<and> halfmoveClock s' = 0"
  using assms(2)
proof (cases rule: makeMove_cases)
  case (promotion p)
  let ?pre = "preMove s p fromRow fromCol toRow toCol"
  from assms(1) have wf: "wfBoard (board s)"
    and ep: "epTargetOk (fenEnPassant s)" by (simp_all add: engineInv_def)
  from promotion(5) promotion(2) have pawn: "ptype p = Pawn"
    and far: "(color p = White \<and> toRow = 0) \<or> (color p = Black \<and> toRow = 7)"
    by (auto simp: isPawnPromotion_def preMove_from)
  from far ep have "\<not> isEpSquare (fenEnPassant s) toRow toCol"
    by (intro not_epSquare_far) auto
  then have quiet: "\<not> fst (handleEnPassant s p fromRow fromCol toRow toCol)"
    by (simp add: handleEnPassant_fires)
  then have board: "board s' = board s"
    by (simp add: promotion(6) preMove_board handleEnPassant_board)
  from isValidMove_pawn_rows [OF promotion(4) promotion(2) pawn] far
  have step: "\<bar>toRow - fromRow\<bar> \<noteq> 2" "toRow \<noteq> fromRow" by auto
  then have epNew: "fenEnPassant s' = ''-''"
    by (simp add: promotion(6) preMove_fenEnPassant updateEnPassantTarget_value)
  from pawn have clock: "halfmoveClock s' = 0"
    and rights: "castlingRights s' = castlingRights s" "fenCastling s' = fenCastling s"
    by (simp_all add: promotion(6) preMove_pawn)
  from promotion(4) obtain q where range: "0 \<le> fromRow" "fromRow \<le> 7" "0 \<le> fromCol" "fromCol \<le> 7"
    "0 \<le> toRow" "toRow \<le> 7" "0 \<le> toCol" "toCol \<le> 7"
    by (rule isValidMove_D)
  have "\<exists>s''. executePromotion s' t = Inr s''
           \<and> cell (board s'') toRow toCol = newPiece (color p) (promotedType t)
           \<and> cell (board s'') fromRow fromCol = None" for t
    using executePromotion_resolves [of s' "\<lparr>pFromRow = fromRow, pFromCol = fromCol,
        pToRow = toRow, pToCol = toCol, pColor = color p\<rparr>" p t]
      promotion(2) wf range step(2) board
    by (auto simp: promotion(6))
  with board promotion(2) pawn epNew clock rights show ?thesis by auto
qed simp_all

theorem promotion_leaves_board_witness:
  "engineInv (position promotionGame)
   \<and> fenEnPassant (position promotionGame) = ''h6''
   \<and> castlingRights (position promotionGame) = \<lparr>white = allRights, black = allRights\<rparr>
   \<and> (\<exists>s'. makeMove (position promotionGame) 1 0 0 1 = Inr (Promotion, s')
          \<and> board s' = board (position promotionGame)
          \<and> cell (board s') 1 0 = Some whitePawn
          \<and> cell (board s') 0 1 = newPiece Black Knight
          \<and> castlingRights s' = \<lparr>white = allRights, black = allRights\<rparr>
          \<and> fenEnPassant s' = ''-''
          \<and> halfmoveClock s' = 0
          \<and> (\<forall>t. \<exists>s''. executePromotion s' t = Inr s''
                 \<and> cell (board s'') 0 1 = newPiece White (promotedType t)
                 \<and> cell (board s'') 1 0 = None))"
proof -
  let ?s = "position promotionGame"
  from promotionPosition have r: "reachable ?s" and f: "promotionFacts ?s" by simp_all
  from r have inv: "engineInv ?s" by (rule reachable_engineInv)
  from promotionPosition_promotes obtain s' where s': "makeMove ?s 1 0 0 1 = Inr (Promotion, s')" ..
  from promotion_leaves_board [OF inv s'] f s' inv show ?thesis
    by (auto simp: promotionFacts_def whitePawn_def)
qed


end
